theory Spec2Isabelle
  imports Main "HOL-Library.Sublist" "HOL-Library.Word"
begin

section \<open>Strings and bytes\<close>

text \<open>
  A Go \<open>string\<close> is a sequence of bytes, here a \<open>char list\<close>; a \<open>[]byte\<close> is a list of
  8-bit words. The functions of this section are the parts of Go's \<open>strings\<close>,
  \<open>path/filepath\<close> and \<open>encoding/base64\<close> packages that the handler calls.
\<close>

type_synonym bytes = "8 word list"

text \<open>\<open>strings.HasSuffix(s, suffix)\<close>.\<close>

definition HasSuffix :: "string \<Rightarrow> string \<Rightarrow> bool" where
  "HasSuffix s suf = suffix suf s"

text \<open>
  \<open>strings.Split(s, sep)\<close> for a separator of one byte (the handler splits on \<open>","\<close> and
  \<open>";"\<close> only): the pieces of \<open>s\<close> between the separators, one more than there are
  separators, so the result of splitting the empty string is the one empty piece.
\<close>

fun Split :: "string \<Rightarrow> char \<Rightarrow> string list" where
  "Split [] sep = [[]]"
| "Split (x # xs) sep =
     (if x = sep then [] # Split xs sep
      else (case Split xs sep of t # ts \<Rightarrow> (x # t) # ts | [] \<Rightarrow> [[x]]))"

text \<open>
  \<open>strings.TrimSpace(s)\<close> removes from both ends every rune for which \<open>unicode.IsSpace\<close>
  holds. The string is read as UTF-8, so a white-space rune is one of the byte sequences
  below: the six ASCII white-space bytes, U+0085, U+00A0, U+1680, U+2000 to U+200A,
  U+2028, U+2029, U+202F, U+205F and U+3000. A byte that starts no such sequence ends
  the trimming on its side.
\<close>

definition space_runes :: "string list" where
  "space_runes =
     [[CHR 0x09], [CHR 0x0A], [CHR 0x0B], [CHR 0x0C], [CHR 0x0D], [CHR 0x20],
      [CHR 0xC2, CHR 0x85], [CHR 0xC2, CHR 0xA0],
      [CHR 0xE1, CHR 0x9A, CHR 0x80],
      [CHR 0xE2, CHR 0x80, CHR 0x80], [CHR 0xE2, CHR 0x80, CHR 0x81],
      [CHR 0xE2, CHR 0x80, CHR 0x82], [CHR 0xE2, CHR 0x80, CHR 0x83],
      [CHR 0xE2, CHR 0x80, CHR 0x84], [CHR 0xE2, CHR 0x80, CHR 0x85],
      [CHR 0xE2, CHR 0x80, CHR 0x86], [CHR 0xE2, CHR 0x80, CHR 0x87],
      [CHR 0xE2, CHR 0x80, CHR 0x88], [CHR 0xE2, CHR 0x80, CHR 0x89],
      [CHR 0xE2, CHR 0x80, CHR 0x8A],
      [CHR 0xE2, CHR 0x80, CHR 0xA8], [CHR 0xE2, CHR 0x80, CHR 0xA9],
      [CHR 0xE2, CHR 0x80, CHR 0xAF],
      [CHR 0xE2, CHR 0x81, CHR 0x9F],
      [CHR 0xE3, CHR 0x80, CHR 0x80]]"

text \<open>
  The width in bytes of the white-space rune that \<open>s\<close> starts with (given the encodings
  \<open>rs\<close>), or 0 when it starts with none.
\<close>

fun leading_width :: "string list \<Rightarrow> string \<Rightarrow> nat" where
  "leading_width [] s = 0"
| "leading_width (r # rs) s = (if r \<noteq> [] \<and> prefix r s then length r else leading_width rs s)"

function trim_runes :: "string list \<Rightarrow> string \<Rightarrow> string" where
  "trim_runes rs s =
     (if leading_width rs s = 0 then s else trim_runes rs (drop (leading_width rs s) s))"
  by pat_completeness auto
termination
proof (relation "measure (\<lambda>(rs, s). length s)")
  show "wf (measure (\<lambda>(rs, s). length s))" by simp
next
  fix rs :: "string list" and s :: string
  assume "leading_width rs s \<noteq> 0"
  moreover have "leading_width rs s \<le> length s"
    by (induction rs) (auto simp: prefix_def)
  ultimately show "((rs, drop (leading_width rs s) s), (rs, s)) \<in> measure (\<lambda>(rs, s). length s)"
    by simp
qed

declare trim_runes.simps [simp del]

definition TrimLeft :: "string \<Rightarrow> string" where
  "TrimLeft s = trim_runes space_runes s"

definition TrimRight :: "string \<Rightarrow> string" where
  "TrimRight s = rev (trim_runes (map rev space_runes) (rev s))"

definition TrimSpace :: "string \<Rightarrow> string" where
  "TrimSpace s = TrimRight (TrimLeft s)"

text \<open>
  \<open>filepath.Ext(path)\<close>: the suffix of \<open>path\<close> from the last dot of its last element,
  empty when that element has no dot. The source scans from the end and stops at a
  path separator; \<open>Ext_scan\<close> walks the reversed path, \<open>acc\<close> holding what it passed.
\<close>

fun Ext_scan :: "string \<Rightarrow> string \<Rightarrow> string" where
  "Ext_scan [] acc = []"
| "Ext_scan (c # r) acc =
     (if c = CHR ''/'' then []
      else if c = CHR ''.'' then c # acc
      else Ext_scan r (c # acc))"

definition filepath_Ext :: "string \<Rightarrow> string" where
  "filepath_Ext path = Ext_scan (rev path) []"

text \<open>
  The directory that \<open>path.Split(p)\<close> returns: \<open>p\<close> up to and with its last slash, empty
  when it has none.
\<close>

definition path_dir :: "string \<Rightarrow> string" where
  "path_dir p = rev (dropWhile (\<lambda>c. c \<noteq> CHR ''/'') (rev p))"

text \<open>
  \<open>path.Clean(p)\<close>, element by element. The source scans the bytes of \<open>p\<close> and writes a
  buffer: it skips an empty element and a \<open>.\<close> element, copies any other element after
  a slash, and at a \<open>..\<close> element rewinds the buffer to its previous slash; when there is
  nothing to rewind, a rooted path drops the \<open>..\<close> and any other path keeps it, and
  nothing written before it is rewound later. In \<open>Clean_loop\<close> the buffer is the \<open>dots\<close>
  kept \<open>..\<close> elements and then the elements of \<open>stack\<close>, last first. An empty result is
  \<open>.\<close>, or \<open>/\<close> for a rooted path.
\<close>

fun join :: "string list \<Rightarrow> string" where
  "join [] = []"
| "join [e] = e"
| "join (e # es) = e @ [CHR ''/''] @ join es"

fun Clean_loop :: "bool \<Rightarrow> nat \<Rightarrow> string list \<Rightarrow> string list \<Rightarrow> string list" where
  "Clean_loop rooted dots stack [] = replicate dots ''..'' @ rev stack"
| "Clean_loop rooted dots stack (e # es) =
     (if e = [] \<or> e = ''.'' then Clean_loop rooted dots stack es
      else if e = ''..'' then
        (case stack of
           last_written # below \<Rightarrow> Clean_loop rooted dots below es
         | [] \<Rightarrow> if rooted then Clean_loop rooted dots [] es
                 else Clean_loop rooted (Suc dots) [] es)
      else Clean_loop rooted dots (e # stack) es)"

definition path_Clean :: "string \<Rightarrow> string" where
  "path_Clean p =
     (case p of
        [] \<Rightarrow> ''.''
      | c # cs \<Rightarrow>
          (let rooted = (c = CHR ''/'');
               elements = Clean_loop rooted 0 [] (Split p (CHR ''/''))
           in if rooted then CHR ''/'' # join elements
              else if elements = [] then ''.'' else join elements))"

text \<open>
  \<open>encoding/base64\<close>: the standard alphabet, and \<open>EncodeToString\<close> of an encoding whose
  padding character is \<open>pad\<close> (\<open>None\<close> is \<open>base64.NoPadding\<close>). Three bytes give four
  characters; a last block of one or two bytes gives two or three characters and then
  the padding, if the encoding has any.
\<close>

definition encodeStd :: string where
  "encodeStd = ''ABCDEFGHIJKLMNOPQRSTUVWXYZabcdefghijklmnopqrstuvwxyz0123456789+/''"

definition sextet :: "nat \<Rightarrow> nat \<Rightarrow> char" where
  "sextet val shift = encodeStd ! (val div 2 ^ shift mod 64)"

fun EncodeToString :: "char option \<Rightarrow> bytes \<Rightarrow> string" where
  "EncodeToString pad (a # b # c # rest) =
     (let val = unat a * 65536 + unat b * 256 + unat c
      in [sextet val 18, sextet val 12, sextet val 6, sextet val 0] @ EncodeToString pad rest)"
| "EncodeToString pad [a, b] =
     (let val = unat a * 65536 + unat b * 256
      in [sextet val 18, sextet val 12, sextet val 6] @
         (case pad of None \<Rightarrow> [] | Some p \<Rightarrow> [p]))"
| "EncodeToString pad [a] =
     (let val = unat a * 65536
      in [sextet val 18, sextet val 12] @ (case pad of None \<Rightarrow> [] | Some p \<Rightarrow> [p, p]))"
| "EncodeToString pad [] = []"

text \<open>\<open>base64.StdEncoding\<close>, and the package variable \<open>base64Encoding\<close> of the library.\<close>

definition StdEncoding :: "char option" where
  "StdEncoding = Some (CHR ''='')"

definition base64Encoding :: "char option" where
  "base64Encoding = None"

section \<open>Headers, requests and the object store\<close>

text \<open>
  \<open>http.Header\<close> maps a header name to its values. \<open>Get\<close> returns the first value of
  the name, or the empty string; \<open>Set\<close> replaces the values by one. Both put the name
  in canonical form first, so the names below are written as the canonical form of
  the names in the source (\<open>"content-type"\<close> is \<open>Content-Type\<close>, \<open>"etag"\<close> is \<open>Etag\<close>).
\<close>

type_synonym Header = "string \<rightharpoonup> string list"

definition Header_Get :: "Header \<Rightarrow> string \<Rightarrow> string" where
  "Header_Get h key = (case h key of Some (v # vs) \<Rightarrow> v | _ \<Rightarrow> [])"

definition Header_Set :: "Header \<Rightarrow> string \<Rightarrow> string \<Rightarrow> Header" where
  "Header_Set h key v = h(key \<mapsto> [v])"

record Request =
  URL_Path :: string
  req_Header :: Header

text \<open>
  A Go \<open>error\<close>: either an \<open>awserr.Error\<close>, with its code, or any other error. Both
  carry the text that \<open>err.Error()\<close> returns.
\<close>

datatype error = awserr_Error string string | other_error string

fun Error :: "error \<Rightarrow> string" where
  "Error (awserr_Error code text) = text"
| "Error (other_error text) = text"

text \<open>The test \<open>awsErr, ok := err.(awserr.Error); ok && awsErr.Code() == code\<close>.\<close>

fun hasCode :: "error \<Rightarrow> string \<Rightarrow> bool" where
  "hasCode (awserr_Error c text) code = (c = code)"
| "hasCode (other_error text) code = False"

text \<open>
  The outputs of the store. Optional fields are the pointers of the SDK's structs. A
  body is the bytes the reader delivers and the error that ends the reading, \<open>None\<close>
  for the end of the stream. Instants are counted from the zero \<open>time.Time\<close>.
\<close>

type_synonym Time = nat

record HeadObjectOutput =
  head_ContentType :: "string option"
  head_ContentLength :: "int option"

record GetObjectOutput =
  ContentType :: "string option"
  ContentLength :: "int option"
  CacheControl :: "string option"
  LastModified :: "Time option"
  Body :: "bytes \<times> error option"

text \<open>
  The client: each call returns an error or an output (the SDK returns a non-nil
  output whenever the error is nil). The arguments are the bucket and the key.
\<close>

record S3 =
  HeadObject :: "string \<Rightarrow> string \<Rightarrow> error + HeadObjectOutput"
  GetObject :: "string \<Rightarrow> string \<Rightarrow> error + GetObjectOutput"

record S3Website =
  client :: S3
  bucket :: string

definition aws_StringValue :: "string option \<Rightarrow> string" where
  "aws_StringValue p = (case p of None \<Rightarrow> [] | Some v \<Rightarrow> v)"

definition aws_TimeValue :: "Time option \<Rightarrow> Time" where
  "aws_TimeValue p = (case p of None \<Rightarrow> 0 | Some t \<Rightarrow> t)"

text \<open>
  The functions of the Go library whose results the handler uses as they are:
  \<open>mime.TypeByExtension\<close> (a table of the host), the stream a \<open>gzip.Writer\<close> leaves in
  its buffer once the input is written and the writer closed (or the error it
  reports), the digests, \<open>http.DetectContentType\<close>, and the largest capacity that
  \<open>make([]byte, 0, n)\<close> accepts. For \<open>http.Redirect\<close>: whether \<open>url.Parse\<close> reads a target
  without error as a URL that has neither scheme nor host, and the escaping of the
  \<open>Location\<close> value, which depends on the version of Go (recent versions write the
  bytes outside ASCII as \<open>%XX\<close> and leave the others).
\<close>

record lib =
  TypeByExtension :: "string \<Rightarrow> string"
  gzip :: "bytes \<Rightarrow> error + bytes"
  sha256 :: "bytes \<Rightarrow> bytes"
  sha1 :: "bytes \<Rightarrow> error + bytes"
  DetectContentType :: "bytes \<Rightarrow> string"
  maxAlloc :: int
  url_relative :: "string \<Rightarrow> bool"
  escapeLocation :: "string \<Rightarrow> string"

section \<open>What a handler does\<close>

text \<open>
  A handler changes the header map of its \<open>http.ResponseWriter\<close> and, in order, calls
  the store and the functions of \<open>net/http\<close> that write the response. The state is the
  header map and the calls made so far. The handlers never call \<open>WriteHeader\<close> or
  \<open>Write\<close> themselves: a status line, the headers and a body go out only inside
  \<open>http.Error\<close> (with the given text and status code), \<open>http.NotFound\<close> (a 404),
  \<open>http.Redirect\<close> (to the given target, with the given code) and \<open>http.ServeContent\<close>
  (with the given name, modification time and content). These four are the replies.
  A panic in \<open>make\<close> ends the handler with no reply of its own.
\<close>

datatype event =
    S3_HeadObject string string
  | S3_GetObject string string
  | http_Error string nat
  | http_NotFound
  | http_Redirect string nat
  | http_ServeContent string Time bytes
  | log_Println string
  | panic_makeslice

record state =
  w_Header :: Header
  trace :: "event list"

definition w_Set :: "string \<Rightarrow> string \<Rightarrow> state \<Rightarrow> state" where
  "w_Set key v st = st\<lparr>w_Header := Header_Set (w_Header st) key v\<rparr>"

definition emit :: "event \<Rightarrow> state \<Rightarrow> state" where
  "emit e st = st\<lparr>trace := trace st @ [e]\<rparr>"

fun is_reply :: "event \<Rightarrow> bool" where
  "is_reply (http_Error msg code) = True"
| "is_reply http_NotFound = True"
| "is_reply (http_Redirect url code) = True"
| "is_reply (http_ServeContent name modtime content) = True"
| "is_reply e = False"

text \<open>
  The \<open>Location\<close> header that \<open>http.Redirect(w, r, urlStr, code)\<close> writes, \<open>oldpath\<close> being
  \<open>r.URL.Path\<close>. A target that parses as a URL without scheme and host is made
  absolute with the directory of the request path, and its part before the first
  \<open>?\<close> is cleaned, keeping a slash at its end; any other target is left as it is.
\<close>

definition Redirect_Location :: "lib \<Rightarrow> string \<Rightarrow> string \<Rightarrow> string" where
  "Redirect_Location env oldpath urlStr =
     escapeLocation env
       (if url_relative env urlStr then
          (let oldpath1 = (if oldpath = [] then ''/'' else oldpath);
               urlStr1 = (case urlStr of
                            [] \<Rightarrow> path_dir oldpath1 @ urlStr
                          | c # cs \<Rightarrow> if c \<noteq> CHR ''/'' then path_dir oldpath1 @ urlStr
                                    else urlStr);
               urlStr2 = takeWhile (\<lambda>c. c \<noteq> CHR ''?'') urlStr1;
               query = dropWhile (\<lambda>c. c \<noteq> CHR ''?'') urlStr1;
               trailing = HasSuffix urlStr2 ''/'';
               cleaned = path_Clean urlStr2
           in (if trailing \<and> \<not> HasSuffix cleaned ''/'' then cleaned @ ''/'' else cleaned)
              @ query)
        else urlStr)"

text \<open>
  The \<open>Location\<close> header of the response to a request: the one its last call writes,
  when that call is \<open>http.Redirect\<close>.
\<close>

fun reply_Location :: "lib \<Rightarrow> Request \<Rightarrow> event \<Rightarrow> string option" where
  "reply_Location env req (http_Redirect urlStr code) =
     Some (Redirect_Location env (URL_Path req) urlStr)"
| "reply_Location env req e = None"

definition Location :: "lib \<Rightarrow> Request \<Rightarrow> state \<Rightarrow> string option" where
  "Location env req st =
     (if trace st = [] then None else reply_Location env req (last (trace st)))"

section \<open>The library: package s3website\<close>

definition compressableContentTypes :: "string \<Rightarrow> bool" where
  "compressableContentTypes t \<longleftrightarrow> t \<in> set
     [''application/eot'', ''application/font'', ''application/font-sfnt'',
      ''application/javascript'', ''application/json'', ''application/opentype'',
      ''application/otf'', ''application/pkcs7-mime'', ''application/truetype'',
      ''application/ttf'', ''application/vnd.ms-fontobject'',
      ''application/x-font-opentype'', ''application/x-font-truetype'',
      ''application/x-font-ttf'', ''application/x-httpd-cgi'',
      ''application/x-javascript'', ''application/x-mpegurl'',
      ''application/x-opentype'', ''application/x-otf'', ''application/x-perl'',
      ''application/x-ttf'', ''application/xhtml+xml'', ''application/xml'',
      ''application/xml+rss'', ''font/eot'', ''font/opentype'', ''font/otf'',
      ''font/ttf'', ''image/svg+xml'', ''text/css'', ''text/csv'', ''text/html'',
      ''text/javascript'', ''text/js'', ''text/plain'', ''text/richtext'',
      ''text/tab-separated-values'', ''text/x-component'', ''text/x-java-source'',
      ''text/x-script'', ''text/xml'']"

text \<open>The loop of \<open>acceptEncodingGzip\<close> over the pieces of the header value.\<close>

fun gzip_listed :: "string list \<Rightarrow> bool" where
  "gzip_listed [] = False"
| "gzip_listed (encoding # encodings) =
     (if TrimSpace encoding = ''gzip'' then True else gzip_listed encodings)"

definition acceptEncodingGzip :: "Request \<Rightarrow> bool" where
  "acceptEncodingGzip req =
     gzip_listed (Split (Header_Get (req_Header req) ''Accept-Encoding'') (CHR '',''))"

definition headObject :: "S3Website \<Rightarrow> string \<Rightarrow> state \<Rightarrow> (error + HeadObjectOutput option) \<times> state" where
  "headObject s key st =
     (let st' = emit (S3_HeadObject (bucket s) key) st
      in case HeadObject (client s) (bucket s) key of
           Inl err \<Rightarrow> if hasCode err ''NotFound'' then (Inr None, st') else (Inl err, st')
         | Inr out \<Rightarrow> (Inr (Some out), st'))"

definition getObject :: "S3Website \<Rightarrow> string \<Rightarrow> state \<Rightarrow> (error + GetObjectOutput option) \<times> state" where
  "getObject s key st =
     (let st' = emit (S3_GetObject (bucket s) key) st
      in case GetObject (client s) (bucket s) key of
           Inl err \<Rightarrow> if hasCode err ''NoSuchKey'' then (Inr None, st') else (Inl err, st')
         | Inr out \<Rightarrow> (Inr (Some out), st'))"

text \<open>
  \<open>io.Copy\<close> of a body into writers that take every byte: the bytes read, or the error
  that ended the reading.
\<close>

definition io_Copy :: "bytes \<times> error option \<Rightarrow> error + bytes" where
  "io_Copy body = (case snd body of Some err \<Rightarrow> Inl err | None \<Rightarrow> Inr (fst body))"

text \<open>
  The two writers of \<open>serveFile\<close>, closed after the copy: what the buffer \<open>data\<close> holds
  then. \<open>nopWriteCloser\<close> hands the bytes on and its \<open>Close\<close> returns nil.
\<close>

definition Close :: "lib \<Rightarrow> bool \<Rightarrow> bytes \<Rightarrow> error + bytes" where
  "Close env gzipEncoded written = (if gzipEncoded then gzip env written else Inr written)"

text \<open>
  \<open>serveFile\<close>. The hash is the second writer of the \<open>io.MultiWriter\<close>, beside the
  gzip writer and not behind it: it is fed the bytes that \<open>io.Copy\<close> reads from the
  body. \<open>make\<close> panics on a capacity that is negative or too large.
\<close>

definition serveFile :: "lib \<Rightarrow> S3Website \<Rightarrow> Request \<Rightarrow> string \<Rightarrow> state \<Rightarrow> state" where
  "serveFile env s req key st =
     (case getObject s key st of
        (Inl err, st1) \<Rightarrow> emit (http_Error (Error err) 500) st1
      | (Inr None, st1) \<Rightarrow> emit http_NotFound st1
      | (Inr (Some getObjectOutput), st1) \<Rightarrow>
          (let fileContentType0 =
                 (case ContentType getObjectOutput of Some t \<Rightarrow> t | None \<Rightarrow> []);
               fileContentType =
                 (if fileContentType0 = [] then TypeByExtension env (filepath_Ext key)
                  else fileContentType0);
               st2 = (if fileContentType \<noteq> [] then w_Set ''Content-Type'' fileContentType st1
                      else st1)
           in if (case ContentLength getObjectOutput of
                    Some n \<Rightarrow> n < 0 \<or> maxAlloc env < n | None \<Rightarrow> False)
              then emit panic_makeslice st2
              else
                (let gzipEncoded =
                       (compressableContentTypes (hd (Split fileContentType (CHR '';'')))
                        \<and> acceptEncodingGzip req)
                 in case io_Copy (Body getObjectOutput) of
                      Inl err \<Rightarrow> emit (http_Error (Error err) 500) st2
                    | Inr read \<Rightarrow>
                        (case Close env gzipEncoded read of
                           Inl err \<Rightarrow> emit (http_Error (Error err) 500) st2
                         | Inr data \<Rightarrow>
                             (let fileHashSum = sha256 env read;
                                  etag = [CHR 0x22] @ EncodeToString base64Encoding fileHashSum
                                           @ [CHR 0x22];
                                  st3 = w_Set ''Etag'' etag st2;
                                  st4 = (if gzipEncoded
                                         then w_Set ''Vary'' ''accept-encoding''
                                                (w_Set ''Content-Encoding'' ''gzip'' st3)
                                         else st3);
                                  st5 = w_Set ''Content-Type'' fileContentType st4;
                                  st6 = (if aws_StringValue (CacheControl getObjectOutput) \<noteq> []
                                         then w_Set ''Cache-Control''
                                                (aws_StringValue (ContentType getObjectOutput)) st5
                                         else w_Set ''Cache-Control'' ''max-age=60'' st5)
                              in emit (http_ServeContent key
                                         (aws_TimeValue (LastModified getObjectOutput)) data)
                                   st6)))))"

definition ServeHTTP :: "lib \<Rightarrow> S3Website \<Rightarrow> Request \<Rightarrow> state \<Rightarrow> state" where
  "ServeHTTP env s req st =
     (let key = URL_Path req
      in if HasSuffix key ''/'' then serveFile env s req (key @ ''index.html'') st
         else
           (case headObject s key st of
              (Inl err, st1) \<Rightarrow> emit (http_Error (Error err) 500) st1
            | (Inr (Some headObjectOutput), st1) \<Rightarrow> serveFile env s req key st1
            | (Inr None, st1) \<Rightarrow>
                (case headObject s (key @ ''/index.html'') st1 of
                   (Inl err, st2) \<Rightarrow> emit (http_Error (Error err) 500) st2
                 | (Inr (Some headObjectOutput), st2) \<Rightarrow>
                     emit (http_Redirect (key @ ''/'') 302) st2
                 | (Inr None, st2) \<Rightarrow> emit http_NotFound st2)))"

section \<open>The command: package main\<close>

text \<open>
  The command has its own \<open>serveFile\<close> and \<open>ServeHTTP\<close>; its \<open>acceptEncodingGzip\<close>,
  \<open>headObject\<close>, \<open>getObject\<close> and table of compressible types are those of the
  library, word for word. Its \<open>serveFile\<close> reads the whole body first
  (\<open>ioutil.ReadAll\<close>), takes the content type from the header map of the response
  writer, compresses, and then hashes the bytes it is going to send, with SHA-1 and
  \<open>base64.StdEncoding\<close>.
\<close>

definition main_serveFile :: "lib \<Rightarrow> S3Website \<Rightarrow> Request \<Rightarrow> string \<Rightarrow> state \<Rightarrow> state" where
  "main_serveFile env s req key st =
     (case getObject s key st of
        (Inl err, st1) \<Rightarrow> emit (http_Error (Error err) 500) st1
      | (Inr None, st1) \<Rightarrow> emit http_NotFound st1
      | (Inr (Some getObjectOutput), st1) \<Rightarrow>
          (case io_Copy (Body getObjectOutput) of
             Inl err \<Rightarrow> emit (http_Error (Error err) 500) st1
           | Inr read \<Rightarrow>
               (let fileContentType0 = Header_Get (w_Header st1) ''Content-Type'';
                    fileContentType1 =
                      (if fileContentType0 = [] then TypeByExtension env (filepath_Ext key)
                       else fileContentType0);
                    fileContentType =
                      (if fileContentType1 = [] then DetectContentType env read
                       else fileContentType1);
                    gzipEncoded =
                      (compressableContentTypes (hd (Split fileContentType (CHR '';'')))
                       \<and> acceptEncodingGzip req)
                in case (if gzipEncoded then gzip env read else Inr read) of
                     Inl err \<Rightarrow>
                       emit (http_Error ''an error occurred'' 500) (emit (log_Println (Error err)) st1)
                   | Inr data \<Rightarrow>
                       (case sha1 env data of
                          Inl err \<Rightarrow>
                            emit (http_Error ''an error occurred'' 500)
                              (emit (log_Println (Error err)) st1)
                        | Inr fileHashSum \<Rightarrow>
                            (let etag = [CHR 0x22] @ EncodeToString StdEncoding fileHashSum
                                          @ [CHR 0x22];
                                 st3 = w_Set ''Etag'' etag st1;
                                 st4 = (if gzipEncoded
                                        then w_Set ''Vary'' ''accept-encoding''
                                               (w_Set ''Content-Encoding'' ''gzip'' st3)
                                        else st3);
                                 st5 = w_Set ''Content-Type'' fileContentType st4;
                                 st6 = (if aws_StringValue (CacheControl getObjectOutput) \<noteq> []
                                        then w_Set ''Cache-Control''
                                               (aws_StringValue (ContentType getObjectOutput)) st5
                                        else w_Set ''Cache-Control'' ''max-age=60'' st5)
                             in emit (http_ServeContent key
                                        (aws_TimeValue (LastModified getObjectOutput)) data)
                                  st6)))))"

definition main_ServeHTTP :: "lib \<Rightarrow> S3Website \<Rightarrow> Request \<Rightarrow> state \<Rightarrow> state" where
  "main_ServeHTTP env s req st =
     (let key = URL_Path req
      in if HasSuffix key ''/'' then main_serveFile env s req (key @ ''index.html'') st
         else
           (case headObject s key st of
              (Inl err, st1) \<Rightarrow> emit (http_Error (Error err) 500) st1
            | (Inr (Some headObjectOutput), st1) \<Rightarrow> main_serveFile env s req key st1
            | (Inr None, st1) \<Rightarrow>
                (case headObject s (key @ ''/index.html'') st1 of
                   (Inl err, st2) \<Rightarrow> emit (http_Error (Error err) 500) st2
                 | (Inr (Some headObjectOutput), st2) \<Rightarrow>
                     emit (http_Redirect (key @ ''/'') 302) st2
                 | (Inr None, st2) \<Rightarrow> emit http_NotFound st2)))"

text \<open>The state a handler starts in: no header set, nothing called.\<close>

definition fresh :: state where
  "fresh = \<lparr>w_Header = Map.empty, trace = []\<rparr>"

section \<open>The vocabulary of the properties\<close>

text \<open>
  The bytes a run hands to \<open>http.ServeContent\<close> for transmission, when its last call is
  that one: the object was served.
\<close>

fun sent :: "event \<Rightarrow> bytes option" where
  "sent (http_ServeContent name modtime content) = Some content"
| "sent e = None"

definition served_content :: "state \<Rightarrow> bytes option" where
  "served_content st = (if trace st = [] then None else sent (last (trace st)))"

fun is_check :: "event \<Rightarrow> bool" where
  "is_check (S3_HeadObject b k) = True"
| "is_check e = False"

text \<open>
  The resolved content type of an object: the type the store reports or, when it
  reports none, the type of the key's extension; empty when both are unknown.
\<close>

definition resolved_type :: "lib \<Rightarrow> GetObjectOutput \<Rightarrow> string \<Rightarrow> string" where
  "resolved_type env obj key =
     (case ContentType obj of
        Some t \<Rightarrow> if t = [] then TypeByExtension env (filepath_Ext key) else t
      | None \<Rightarrow> TypeByExtension env (filepath_Ext key))"

text \<open>A content type without its parameters: what stands before the first \<open>;\<close>.\<close>

definition stripped :: "string \<Rightarrow> string" where
  "stripped t = takeWhile (\<lambda>c. c \<noteq> CHR '';'') t"

text \<open>
  Some comma-separated piece of the request's \<open>Accept-Encoding\<close> value is, once trimmed,
  exactly \<open>gzip\<close>.
\<close>

definition gzip_token :: "Request \<Rightarrow> bool" where
  "gzip_token req \<longleftrightarrow>
     (\<exists>tok \<in> set (Split (Header_Get (req_Header req) ''Accept-Encoding'') (CHR '','')).
        TrimSpace tok = ''gzip'')"

definition compression_due :: "lib \<Rightarrow> GetObjectOutput \<Rightarrow> string \<Rightarrow> Request \<Rightarrow> bool" where
  "compression_due env obj key req \<longleftrightarrow>
     compressableContentTypes (stripped (resolved_type env obj key)) \<and> gzip_token req"

text \<open>
  Every piece of the \<open>Accept-Encoding\<close> value that mentions \<open>gzip\<close> carries a parameter, as
  in \<open>gzip;q=1.0\<close>.
\<close>

definition gzip_only_with_parameter :: "Request \<Rightarrow> bool" where
  "gzip_only_with_parameter req \<longleftrightarrow>
     (\<forall>tok \<in> set (Split (Header_Get (req_Header req) ''Accept-Encoding'') (CHR '','')).
        sublist ''gzip'' tok \<longrightarrow> CHR '';'' \<in> set tok)"

definition quoted :: "string \<Rightarrow> string" where
  "quoted t = [CHR 0x22] @ t @ [CHR 0x22]"

text \<open>\<open>make\<close> accepts the capacity the object's length asks for.\<close>

definition cap_ok :: "lib \<Rightarrow> GetObjectOutput \<Rightarrow> bool" where
  "cap_ok env obj \<longleftrightarrow>
     (case ContentLength obj of Some n \<Rightarrow> 0 \<le> n \<and> n \<le> maxAlloc env | None \<Rightarrow> True)"

text \<open>The first, guarded \<open>Set\<close> of the content type in the library's \<open>serveFile\<close>.\<close>

definition typed :: "lib \<Rightarrow> GetObjectOutput \<Rightarrow> string \<Rightarrow> state \<Rightarrow> state" where
  "typed env obj key st =
     (if resolved_type env obj key \<noteq> [] then w_Set ''Content-Type'' (resolved_type env obj key) st
      else st)"

text \<open>
  The outcome of an existence check: the object is there, or the check fails with an
  error that is not the store's \<open>NotFound\<close>. What remains is absence.
\<close>

definition present :: "S3Website \<Rightarrow> string \<Rightarrow> bool" where
  "present s key =
     (case HeadObject (client s) (bucket s) key of Inr out \<Rightarrow> True | Inl err \<Rightarrow> False)"

definition check_fails :: "S3Website \<Rightarrow> string \<Rightarrow> bool" where
  "check_fails s key =
     (case HeadObject (client s) (bucket s) key of
        Inr out \<Rightarrow> False | Inl err \<Rightarrow> \<not> hasCode err ''NotFound'')"

text \<open>
  A plain path: rooted, without \<open>?\<close>, and with no element that is empty, \<open>.\<close> or \<open>..\<close>.
\<close>

definition plain_path :: "string \<Rightarrow> bool" where
  "plain_path p \<longleftrightarrow>
     CHR ''?'' \<notin> set p \<and>
     (case Split p (CHR ''/'') of
        [] \<Rightarrow> False
      | e # es \<Rightarrow> e = [] \<and> es \<noteq> [] \<and> (\<forall>x \<in> set es. x \<noteq> [] \<and> x \<noteq> ''.'' \<and> x \<noteq> ''..''))"

text \<open>The content type and the compression test of the command's \<open>serveFile\<close>.\<close>

definition main_type :: "lib \<Rightarrow> state \<Rightarrow> string \<Rightarrow> bytes \<Rightarrow> string" where
  "main_type env st key read =
     (if (if Header_Get (w_Header st) ''Content-Type'' = []
          then TypeByExtension env (filepath_Ext key)
          else Header_Get (w_Header st) ''Content-Type'') = []
      then DetectContentType env read
      else if Header_Get (w_Header st) ''Content-Type'' = []
           then TypeByExtension env (filepath_Ext key)
           else Header_Get (w_Header st) ''Content-Type'')"

definition main_compression_due :: "lib \<Rightarrow> state \<Rightarrow> string \<Rightarrow> bytes \<Rightarrow> Request \<Rightarrow> bool" where
  "main_compression_due env st key read req \<longleftrightarrow>
     compressableContentTypes (hd (Split (main_type env st key read) (CHR '';'')))
     \<and> acceptEncodingGzip req"

section \<open>A small site\<close>

text \<open>
  Concrete inputs, for the instances below. The library functions are stand-ins (the
  compressor puts the two magic bytes of gzip before its input, a digest is its input):
  an instance needs some function in their place, and no theorem depends on which.
  For \<open>http.Redirect\<close> the stand-ins are what the library does on the targets used: a
  target of lower-case letters, dots and slashes that starts with one slash parses as
  a URL without scheme and host, and has nothing to escape.
\<close>

definition example_lib :: lib where
  "example_lib =
     \<lparr>TypeByExtension = (\<lambda>ext. if ext = ''.html'' then ''text/html; charset=utf-8'' else []),
      gzip = (\<lambda>b. Inr (0x1f # 0x8b # b)),
      sha256 = (\<lambda>b. b),
      sha1 = (\<lambda>b. Inr b),
      DetectContentType = (\<lambda>b. ''application/octet-stream''),
      maxAlloc = 281474976710656,
      url_relative = (\<lambda>u. prefix ''/'' u \<and> \<not> prefix ''//'' u \<and> set u \<subseteq> set ''/abcdefghijklmnopqrstuvwxyz.''),
      escapeLocation = (\<lambda>u. u)\<rparr>"

definition app_js :: GetObjectOutput where
  "app_js = \<lparr>ContentType = Some ''application/javascript'', ContentLength = Some 3,
             CacheControl = Some ''max-age=3600'', LastModified = Some 7,
             Body = ([0x61, 0x3d, 0x31], None)\<rparr>"

definition index_html :: GetObjectOutput where
  "index_html = \<lparr>ContentType = Some ''text/html'', ContentLength = Some 2,
                 CacheControl = None, LastModified = None,
                 Body = ([0x68, 0x69], None)\<rparr>"

definition blob :: GetObjectOutput where
  "blob = \<lparr>ContentType = None, ContentLength = None,
           CacheControl = None, LastModified = None,
           Body = ([0x00], None)\<rparr>"

definition cut_off :: GetObjectOutput where
  "cut_off = \<lparr>ContentType = Some ''text/plain'', ContentLength = Some 9,
              CacheControl = None, LastModified = None,
              Body = ([0x61], Some (other_error ''unexpected EOF''))\<rparr>"

definition example_objects :: "string \<rightharpoonup> GetObjectOutput" where
  "example_objects =
     [''/index.html'' \<mapsto> index_html, ''/app.js'' \<mapsto> app_js, ''/blob'' \<mapsto> blob,
      ''/cut'' \<mapsto> cut_off, ''/about/index.html'' \<mapsto> index_html,
      ''/a//b/index.html'' \<mapsto> index_html]"

definition example_site :: S3Website where
  "example_site =
     \<lparr>client =
        \<lparr>HeadObject = (\<lambda>b key.
            if key = ''/locked'' then Inl (awserr_Error ''Forbidden'' ''Forbidden: Forbidden'')
            else case example_objects key of
              Some obj \<Rightarrow> Inr \<lparr>head_ContentType = ContentType obj,
                                head_ContentLength = ContentLength obj\<rparr>
            | None \<Rightarrow> Inl (awserr_Error ''NotFound'' ''NotFound: Not Found'')),
         GetObject = (\<lambda>b key.
            case example_objects key of
              Some obj \<Rightarrow> Inr obj
            | None \<Rightarrow> Inl (awserr_Error ''NoSuchKey'' ''NoSuchKey: no such key''))\<rparr>,
      bucket = ''site''\<rparr>"

text \<open>A request for a path, with the given values of \<open>Accept-Encoding\<close>, if any.\<close>

definition request :: "string \<Rightarrow> string list \<Rightarrow> Request" where
  "request path accept =
     \<lparr>URL_Path = path,
      req_Header = (if accept = [] then Map.empty else [''Accept-Encoding'' \<mapsto> accept])\<rparr>"

section \<open>Facts about the strings\<close>

lemma Split_not_Nil [simp]: "Split s c \<noteq> []"
  by (induction s) (auto split: list.splits)

lemma hd_Split: "hd (Split s c) = takeWhile (\<lambda>x. x \<noteq> c) s"
  by (induction s) (auto split: list.splits)

lemma gzip_listed_iff: "gzip_listed ts \<longleftrightarrow> (\<exists>t \<in> set ts. TrimSpace t = ''gzip'')"
  by (induction ts) auto

lemma acceptEncodingGzip_iff: "acceptEncodingGzip req \<longleftrightarrow> gzip_token req"
  by (simp add: acceptEncodingGzip_def gzip_token_def gzip_listed_iff)

lemma compression_due_code:
  "compression_due env obj key req \<longleftrightarrow>
     compressableContentTypes (hd (Split (resolved_type env obj key) (CHR '';''))) \<and> acceptEncodingGzip req"
  by (simp add: compression_due_def stripped_def hd_Split acceptEncodingGzip_iff)

lemma leading_width_take:
  "leading_width rs s \<noteq> 0 \<Longrightarrow> take (leading_width rs s) s \<in> set rs"
  by (induction rs) (auto simp: prefix_def)

lemma trim_runes_sublist: "sublist (trim_runes rs s) s"
proof (induction rs s rule: trim_runes.induct)
  case (1 rs s)
  show ?case
  proof (cases "leading_width rs s = 0")
    case True
    then show ?thesis by (simp add: trim_runes.simps)
  next
    case False
    have "sublist (trim_runes rs (drop (leading_width rs s) s)) (drop (leading_width rs s) s)"
      using 1 False by simp
    moreover have "sublist (drop (leading_width rs s) s) s" by simp
    ultimately have "sublist (trim_runes rs (drop (leading_width rs s) s)) s"
      by (rule sublist_order.order.trans)
    then show ?thesis using False by (subst trim_runes.simps) simp
  qed
qed

lemma trim_runes_keeps:
  "c \<in> set s \<Longrightarrow> \<forall>r \<in> set rs. c \<notin> set r \<Longrightarrow> c \<in> set (trim_runes rs s)"
proof (induction rs s rule: trim_runes.induct)
  case (1 rs s)
  show ?case
  proof (cases "leading_width rs s = 0")
    case True
    then show ?thesis using 1(2) by (simp add: trim_runes.simps)
  next
    case False
    have "take (leading_width rs s) s \<in> set rs" using False by (rule leading_width_take)
    then have "c \<notin> set (take (leading_width rs s) s)" using 1(3) by blast
    moreover have "set s = set (take (leading_width rs s) s) \<union> set (drop (leading_width rs s) s)"
      by (metis append_take_drop_id set_append)
    ultimately have "c \<in> set (drop (leading_width rs s) s)" using 1(2) by blast
    then have "c \<in> set (trim_runes rs (drop (leading_width rs s) s))"
      using 1(1)[OF False] 1(3) by blast
    then show ?thesis using False by (subst trim_runes.simps) simp
  qed
qed

lemma TrimSpace_sublist: "sublist (TrimSpace s) s"
proof -
  have "sublist (TrimLeft s) s" by (simp add: TrimLeft_def trim_runes_sublist)
  moreover have "sublist (TrimRight (TrimLeft s)) (TrimLeft s)"
    using trim_runes_sublist[of "map rev space_runes" "rev (TrimLeft s)"]
    by (metis TrimRight_def rev_rev_ident sublist_rev)
  ultimately show ?thesis unfolding TrimSpace_def by (metis sublist_order.order.trans)
qed

lemma semicolon_no_space: "\<forall>r \<in> set space_runes. CHR '';'' \<notin> set r"
  by (simp add: space_runes_def)

lemma TrimSpace_keeps_semicolon:
  assumes "CHR '';'' \<in> set s" shows "CHR '';'' \<in> set (TrimSpace s)"
proof -
  have l: "CHR '';'' \<in> set (TrimLeft s)"
    unfolding TrimLeft_def using assms semicolon_no_space by (rule trim_runes_keeps)
  have "\<forall>r \<in> set (map rev space_runes). CHR '';'' \<notin> set r"
    using semicolon_no_space by simp
  moreover have "CHR '';'' \<in> set (rev (TrimLeft s))" using l by simp
  ultimately have "CHR '';'' \<in> set (trim_runes (map rev space_runes) (rev (TrimLeft s)))"
    by (rule trim_runes_keeps[rotated])
  then show ?thesis by (simp add: TrimSpace_def TrimRight_def)
qed

lemma gzip_only_with_parameter_refused:
  assumes "gzip_only_with_parameter req" shows "\<not> acceptEncodingGzip req"
proof
  assume "acceptEncodingGzip req"
  then obtain tok where tok: "tok \<in> set (Split (Header_Get (req_Header req) ''Accept-Encoding'') (CHR '',''))"
      and t: "TrimSpace tok = ''gzip''"
    by (auto simp: acceptEncodingGzip_iff gzip_token_def)
  have "sublist ''gzip'' tok" using TrimSpace_sublist[of tok] t by simp
  then have "CHR '';'' \<in> set tok" using assms tok by (auto simp: gzip_only_with_parameter_def)
  then have "CHR '';'' \<in> set (TrimSpace tok)" by (rule TrimSpace_keeps_semicolon)
  then show False using t by simp
qed

text \<open>Cleaning leaves a plain path as it is.\<close>

lemma join_Cons: "join (e # es) = (if es = [] then e else e @ [CHR ''/''] @ join es)"
  by (cases es) simp_all

lemma join_Split: "join (Split s (CHR ''/'')) = s"
  by (induction s) (auto simp: join_Cons split: list.splits)

lemma Split_snoc: "Split (s @ [c]) c = Split s c @ [[]]"
  by (induction s) (auto split: list.splits)

lemma Split_rooted:
  assumes "Split p (CHR ''/'') = [] # es" and "es \<noteq> []"
  shows "p = CHR ''/'' # join es"
proof -
  have "join (Split p (CHR ''/'')) = p" by (rule join_Split)
  then show ?thesis using assms by (simp add: join_Cons)
qed

lemma Clean_loop_keeps:
  "\<forall>x \<in> set es. x \<noteq> [] \<and> x \<noteq> ''.'' \<and> x \<noteq> ''..'' \<Longrightarrow>
   Clean_loop rooted dots stack (es @ rest) = Clean_loop rooted dots (rev es @ stack) rest"
  by (induction es arbitrary: stack) simp_all

lemma path_Clean_plain:
  assumes "plain_path p"
  shows "path_Clean (p @ ''/'') = p"
proof -
  obtain es where sp: "Split p (CHR ''/'') = [] # es" and ne: "es \<noteq> []"
    and good: "\<forall>x \<in> set es. x \<noteq> [] \<and> x \<noteq> ''.'' \<and> x \<noteq> ''..''"
    using assms by (auto simp: plain_path_def split: list.splits)
  have p: "p = CHR ''/'' # join es" using sp ne by (rule Split_rooted)
  have "Split (p @ ''/'') (CHR ''/'') = [] # es @ [[]]"
    using Split_snoc[of p "CHR ''/''"] sp by simp
  moreover have "Clean_loop True 0 [] ([] # es @ [[]]) = es"
    using Clean_loop_keeps[OF good, of True 0 "[]" "[[]]"] by simp
  ultimately have "path_Clean ((CHR ''/'' # join es) @ ''/'') = CHR ''/'' # join es"
    using p by (simp add: path_Clean_def)
  then show ?thesis using p by simp
qed

lemma Redirect_Location_plain:
  assumes plain: "plain_path p" and noslash: "\<not> HasSuffix p ''/''"
  shows "Redirect_Location env oldpath (p @ ''/'') = escapeLocation env (p @ ''/'')"
proof (cases "url_relative env (p @ ''/'')")
  case False
  then show ?thesis by (simp add: Redirect_Location_def)
next
  case True
  obtain es where "Split p (CHR ''/'') = [] # es" and "es \<noteq> []"
    using plain by (auto simp: plain_path_def split: list.splits)
  then obtain cs where p: "p = CHR ''/'' # cs" using Split_rooted by blast
  have q: "CHR ''?'' \<notin> set p" using plain by (simp add: plain_path_def)
  have tw: "takeWhile (\<lambda>c. c \<noteq> CHR ''?'') (p @ ''/'') = p @ ''/''"
    and dw: "dropWhile (\<lambda>c. c \<noteq> CHR ''?'') (p @ ''/'') = []"
    using q by auto
  have tr: "HasSuffix (p @ ''/'') ''/''" by (simp add: HasSuffix_def suffix_def)
  have first: "(case p @ ''/'' of [] \<Rightarrow> path_dir (if oldpath = [] then ''/'' else oldpath) @ (p @ ''/'')
        | c # cs \<Rightarrow> if c \<noteq> CHR ''/'' then path_dir (if oldpath = [] then ''/'' else oldpath) @ (p @ ''/'')
                   else p @ ''/'') = p @ ''/''"
    by (subst p) simp
  show ?thesis
    unfolding Redirect_Location_def Let_def first tw dw path_Clean_plain[OF plain]
    using True tr noslash by simp
qed

section \<open>Facts about the base64 encoding\<close>

lemma length_encodeStd: "length encodeStd = 64"
  by (simp add: encodeStd_def)

lemma distinct_encodeStd: "distinct encodeStd"
  by (simp add: encodeStd_def)

lemma sextet_in: "sextet val shift \<in> set encodeStd"
  by (simp add: sextet_def length_encodeStd)

lemma pad_not_in: "CHR ''='' \<notin> set encodeStd"
  by (simp add: encodeStd_def)

lemma sextet_not_pad: "sextet val shift \<noteq> CHR ''=''"
  using sextet_in pad_not_in by metis

lemma EncodeToString_no_padding: "CHR ''='' \<notin> set (EncodeToString None bs)"
  by (induction "None :: char option" bs rule: EncodeToString.induct)
     (simp_all add: Let_def sextet_not_pad[symmetric])

lemma sextet_inj: "sextet v i = sextet w j \<Longrightarrow> v div 2 ^ i mod 64 = w div 2 ^ j mod 64"
  unfolding sextet_def
  by (simp add: nth_eq_iff_index_eq[OF distinct_encodeStd] length_encodeStd)

lemma mod_step:
  fixes v w :: nat
  shows "v mod a = w mod a \<Longrightarrow> v div a mod b = w div a mod b \<Longrightarrow> v mod (a * b) = w mod (a * b)"
  by (simp add: mod_mult2_eq)

lemma digits_val:
  fixes v w :: nat
  assumes "v < 16777216" "w < 16777216"
    and d3: "v div 262144 mod 64 = w div 262144 mod 64"
    and d2: "v div 4096 mod 64 = w div 4096 mod 64"
    and d1: "v div 64 mod 64 = w div 64 mod 64"
    and d0: "v mod 64 = w mod 64"
  shows "v = w"
proof -
  have "v mod (64 * 64) = w mod (64 * 64)" using d0 d1 by (rule mod_step)
  then have "v mod 4096 = w mod 4096" by simp
  then have "v mod (4096 * 64) = w mod (4096 * 64)" using d2 by (rule mod_step)
  then have "v mod 262144 = w mod 262144" by simp
  then have "v mod (262144 * 64) = w mod (262144 * 64)" using d3 by (rule mod_step)
  then have "v mod 16777216 = w mod 16777216" by simp
  then show ?thesis using assms(1,2) by simp
qed

lemma split_digit:
  fixes x c x' c' n :: nat
  assumes "c < n" "c' < n" "x * n + c = x' * n + c'"
  shows "x = x' \<and> c = c'"
proof -
  have "(x * n + c) div n = x" "(x' * n + c') div n = x'" using assms(1,2) by simp_all
  then have "x = x'" using assms(3) by simp
  then show ?thesis using assms(3) by simp
qed

lemma bytes_val:
  fixes a b c a' b' c' :: nat
  assumes "b < 256" "c < 256" "b' < 256" "c' < 256"
    and "a * 65536 + b * 256 + c = a' * 65536 + b' * 256 + c'"
  shows "a = a' \<and> b = b' \<and> c = c'"
proof -
  have "(a * 256 + b) * 256 + c = (a' * 256 + b') * 256 + c'" using assms(5) by simp
  then have 1: "a * 256 + b = a' * 256 + b'" and 2: "c = c'"
    using split_digit[OF assms(2) assms(4)] by blast+
  show ?thesis using split_digit[OF assms(1) assms(3) 1] 2 by simp
qed

lemma unat_byte: "unat (a :: 8 word) < 256"
  using unsigned_less[of a] by simp

lemma val_less: "unat (a :: 8 word) * 65536 + unat (b :: 8 word) * 256 + unat (c :: 8 word) < 16777216"
  using unat_byte[of a] unat_byte[of b] unat_byte[of c] by simp


lemma group3:
  fixes a b c a' b' c' :: "8 word"
  assumes "sextet (unat a * 65536 + unat b * 256 + unat c) 18 = sextet (unat a' * 65536 + unat b' * 256 + unat c') 18"
      and "sextet (unat a * 65536 + unat b * 256 + unat c) 12 = sextet (unat a' * 65536 + unat b' * 256 + unat c') 12"
      and "sextet (unat a * 65536 + unat b * 256 + unat c) 6 = sextet (unat a' * 65536 + unat b' * 256 + unat c') 6"
      and "(unat a * 65536 + unat b * 256 + unat c) mod 64 = (unat a' * 65536 + unat b' * 256 + unat c') mod 64"
  shows "a = a' \<and> b = b' \<and> c = c'"
proof -
  let ?v = "unat a * 65536 + unat b * 256 + unat c"
  let ?w = "unat a' * 65536 + unat b' * 256 + unat c'"
  have "?v = ?w"
    using sextet_inj[OF assms(1)] sextet_inj[OF assms(2)] sextet_inj[OF assms(3)] assms(4)
    by (intro digits_val[OF val_less val_less]) simp_all
  then have "unat a = unat a' \<and> unat b = unat b' \<and> unat c = unat c'"
    by (intro bytes_val[OF unat_byte unat_byte unat_byte unat_byte])
  then show ?thesis by (simp add: word_unat_eq_iff)
qed

lemma sextet_0: "sextet v 0 = sextet w 0 \<Longrightarrow> v mod 64 = w mod 64"
  using sextet_inj[of v 0 w 0] by simp

lemma bytes_shape:
  obtains "ys = []" | a where "ys = [a]" | a b where "ys = [a, b]"
    | a b c r where "ys = a # b # c # r"
  by (metis list.exhaust)

lemma EncodeToString_inj:
  "EncodeToString None xs = EncodeToString None ys \<Longrightarrow> xs = ys"
proof (induction "None :: char option" xs arbitrary: ys rule: EncodeToString.induct)
  case (1 a b c rest)
  show ?case
  proof (cases ys rule: bytes_shape)
    case (4 a' b' c' r)
    have eq: "sextet (unat a * 65536 + unat b * 256 + unat c) 18 = sextet (unat a' * 65536 + unat b' * 256 + unat c') 18"
         "sextet (unat a * 65536 + unat b * 256 + unat c) 12 = sextet (unat a' * 65536 + unat b' * 256 + unat c') 12"
         "sextet (unat a * 65536 + unat b * 256 + unat c) 6 = sextet (unat a' * 65536 + unat b' * 256 + unat c') 6"
         "sextet (unat a * 65536 + unat b * 256 + unat c) 0 = sextet (unat a' * 65536 + unat b' * 256 + unat c') 0"
         "EncodeToString None rest = EncodeToString None r"
      using "1.prems" 4 by (simp_all add: Let_def)
    have "a = a' \<and> b = b' \<and> c = c'"
      using eq(1) eq(2) eq(3) sextet_0[OF eq(4)] by (rule group3)
    moreover have "rest = r" using eq(5) by (rule "1.hyps"[OF refl])
    ultimately show ?thesis using 4 by simp
  qed (use "1.prems" in \<open>simp_all add: Let_def\<close>)
next
  case (2 a b)
  show ?case
  proof (cases ys rule: bytes_shape)
    case (3 a' b')
    have eq: "sextet (unat a * 65536 + unat b * 256 + unat (0::8 word)) 18 = sextet (unat a' * 65536 + unat b' * 256 + unat (0::8 word)) 18"
         "sextet (unat a * 65536 + unat b * 256 + unat (0::8 word)) 12 = sextet (unat a' * 65536 + unat b' * 256 + unat (0::8 word)) 12"
         "sextet (unat a * 65536 + unat b * 256 + unat (0::8 word)) 6 = sextet (unat a' * 65536 + unat b' * 256 + unat (0::8 word)) 6"
      using "2.prems" 3 by (simp_all add: Let_def)
    have "(unat a * 65536 + unat b * 256 + unat (0::8 word)) mod 64 = (unat a' * 65536 + unat b' * 256 + unat (0::8 word)) mod 64"
      by simp
    with eq have "a = a' \<and> b = b' \<and> (0::8 word) = 0" by (rule group3)
    then show ?thesis using 3 by simp
  qed (use "2.prems" in \<open>simp_all add: Let_def\<close>)
next
  case (3 a)
  show ?case
  proof (cases ys rule: bytes_shape)
    case (2 a')
    have eq: "sextet (unat a * 65536 + unat (0::8 word) * 256 + unat (0::8 word)) 18 = sextet (unat a' * 65536 + unat (0::8 word) * 256 + unat (0::8 word)) 18"
         "sextet (unat a * 65536 + unat (0::8 word) * 256 + unat (0::8 word)) 12 = sextet (unat a' * 65536 + unat (0::8 word) * 256 + unat (0::8 word)) 12"
      using "3.prems" 2 by (simp_all add: Let_def)
    have "sextet (unat a * 65536 + unat (0::8 word) * 256 + unat (0::8 word)) 6 = sextet (unat a' * 65536 + unat (0::8 word) * 256 + unat (0::8 word)) 6"
      by (simp add: sextet_def)
    moreover have "(unat a * 65536 + unat (0::8 word) * 256 + unat (0::8 word)) mod 64 = (unat a' * 65536 + unat (0::8 word) * 256 + unat (0::8 word)) mod 64"
      by simp
    ultimately have "a = a' \<and> (0::8 word) = 0 \<and> (0::8 word) = 0" using eq by (intro group3)
    then show ?thesis using 2 by simp
  qed (use "3.prems" in \<open>simp_all add: Let_def\<close>)
next
  case 4
  then show ?case by (cases ys rule: bytes_shape) (simp_all add: Let_def)
qed

lemma EncodeToString_Nil: "EncodeToString pad bs = [] \<longleftrightarrow> bs = []"
  by (induction pad bs rule: EncodeToString.induct) (simp_all add: Let_def)

lemma EncodeToString_padded:
  "length bs mod 3 \<noteq> 0 \<Longrightarrow> last (EncodeToString (Some p) bs) = p"
  by (induction "Some p" bs rule: EncodeToString.induct)
     (auto simp: Let_def EncodeToString_Nil)

section \<open>Facts about the handlers\<close>

lemma served_content_emit [simp]: "served_content (emit e st) = sent e"
  by (simp add: served_content_def emit_def)

lemma trace_emit [simp]: "trace (emit e st) = trace st @ [e]"
  by (simp add: emit_def)

lemma w_Header_emit [simp]: "w_Header (emit e st) = w_Header st"
  by (simp add: emit_def)

lemma trace_w_Set [simp]: "trace (w_Set k v st) = trace st"
  by (simp add: w_Set_def)

lemma w_Header_w_Set [simp]: "w_Header (w_Set k v st) = (w_Header st)(k \<mapsto> [v])"
  by (simp add: w_Set_def Header_Set_def)

lemma Location_emit [simp]: "Location env req (emit e st) = reply_Location env req e"
  by (simp add: Location_def)

lemma getObject_found:
  "GetObject (client s) (bucket s) key = Inr obj \<Longrightarrow>
   getObject s key st = (Inr (Some obj), emit (S3_GetObject (bucket s) key) st)"
  by (simp add: getObject_def)

lemma getObject_absent:
  "GetObject (client s) (bucket s) key = Inl err \<Longrightarrow> hasCode err ''NoSuchKey'' \<Longrightarrow>
   getObject s key st = (Inr None, emit (S3_GetObject (bucket s) key) st)"
  by (simp add: getObject_def)

lemma getObject_error:
  "GetObject (client s) (bucket s) key = Inl err \<Longrightarrow> \<not> hasCode err ''NoSuchKey'' \<Longrightarrow>
   getObject s key st = (Inl err, emit (S3_GetObject (bucket s) key) st)"
  by (simp add: getObject_def)

lemma resolved_type_code:
  "(if (case ContentType obj of Some t \<Rightarrow> t | None \<Rightarrow> []) = [] then TypeByExtension env (filepath_Ext key)
    else (case ContentType obj of Some t \<Rightarrow> t | None \<Rightarrow> [])) = resolved_type env obj key"
  by (simp add: resolved_type_def split: option.splits)

lemma cap_ok_code:
  "(case ContentLength obj of Some n \<Rightarrow> n < 0 \<or> maxAlloc env < n | None \<Rightarrow> False) \<longleftrightarrow> \<not> cap_ok env obj"
  by (auto simp: cap_ok_def split: option.splits)

lemma serveFile_found:
  assumes get: "GetObject (client s) (bucket s) key = Inr obj"
  shows "serveFile env s req key st =
     (let st2 = typed env obj key (emit (S3_GetObject (bucket s) key) st)
      in if \<not> cap_ok env obj then emit panic_makeslice st2
         else case io_Copy (Body obj) of
                Inl err \<Rightarrow> emit (http_Error (Error err) 500) st2
              | Inr read \<Rightarrow>
                  (case Close env (compression_due env obj key req) read of
                     Inl err \<Rightarrow> emit (http_Error (Error err) 500) st2
                   | Inr data \<Rightarrow>
                       emit (http_ServeContent key (aws_TimeValue (LastModified obj)) data)
                         (w_Set ''Cache-Control''
                            (if aws_StringValue (CacheControl obj) \<noteq> []
                             then aws_StringValue (ContentType obj) else ''max-age=60'')
                            (w_Set ''Content-Type'' (resolved_type env obj key)
                               ((if compression_due env obj key req
                                 then w_Set ''Vary'' ''accept-encoding'' \<circ> w_Set ''Content-Encoding'' ''gzip''
                                 else id)
                                  (w_Set ''Etag'' (quoted (EncodeToString base64Encoding (sha256 env read)))
                                     st2))))))"
  unfolding serveFile_def getObject_found[OF get] prod.case sum.case option.case
    resolved_type_code cap_ok_code Let_def compression_due_code[symmetric]
  by (cases "compression_due env obj key req")
     (simp_all add: typed_def quoted_def split: sum.splits)

lemma serveFile_servedD:
  assumes get: "GetObject (client s) (bucket s) key = Inr obj"
      and srv: "served_content (serveFile env s req key st) = Some content"
  shows "cap_ok env obj"
    and "snd (Body obj) = None"
    and "Close env (compression_due env obj key req) (fst (Body obj)) = Inr content"
  using srv unfolding serveFile_found[OF get] Let_def
  by (auto simp: io_Copy_def split: if_splits sum.splits option.splits)

lemma serveFile_served_state:
  assumes get: "GetObject (client s) (bucket s) key = Inr obj"
      and srv: "served_content (serveFile env s req key st) = Some content"
  shows "serveFile env s req key st =
           emit (http_ServeContent key (aws_TimeValue (LastModified obj)) content)
             (w_Set ''Cache-Control''
                (if aws_StringValue (CacheControl obj) \<noteq> []
                 then aws_StringValue (ContentType obj) else ''max-age=60'')
                (w_Set ''Content-Type'' (resolved_type env obj key)
                   ((if compression_due env obj key req
                     then w_Set ''Vary'' ''accept-encoding'' \<circ> w_Set ''Content-Encoding'' ''gzip''
                     else id)
                      (w_Set ''Etag''
                         (quoted (EncodeToString base64Encoding (sha256 env (fst (Body obj)))))
                         (typed env obj key (emit (S3_GetObject (bucket s) key) st))))))"
proof -
  note d = serveFile_servedD[OF get srv]
  have rd: "io_Copy (Body obj) = Inr (fst (Body obj))"
    using d(2) by (simp add: io_Copy_def)
  show ?thesis
    unfolding serveFile_found[OF get] Let_def using d(1) d(3) rd by simp
qed

lemma w_Header_typed:
  "k \<noteq> ''Content-Type'' \<Longrightarrow> w_Header (typed env obj key st) k = w_Header st k"
  by (simp add: typed_def)

lemma headObject_found:
  "HeadObject (client s) (bucket s) key = Inr out \<Longrightarrow>
   headObject s key st = (Inr (Some out), emit (S3_HeadObject (bucket s) key) st)"
  by (simp add: headObject_def)

lemma headObject_absent:
  "HeadObject (client s) (bucket s) key = Inl err \<Longrightarrow> hasCode err ''NotFound'' \<Longrightarrow>
   headObject s key st = (Inr None, emit (S3_HeadObject (bucket s) key) st)"
  by (simp add: headObject_def)

lemma headObject_error:
  "HeadObject (client s) (bucket s) key = Inl err \<Longrightarrow> \<not> hasCode err ''NotFound'' \<Longrightarrow>
   headObject s key st = (Inl err, emit (S3_HeadObject (bucket s) key) st)"
  by (simp add: headObject_def)

lemma serveFile_absent:
  "GetObject (client s) (bucket s) key = Inl err \<Longrightarrow> hasCode err ''NoSuchKey'' \<Longrightarrow>
   serveFile env s req key st = emit http_NotFound (emit (S3_GetObject (bucket s) key) st)"
  by (simp add: serveFile_def getObject_absent)

lemma serveFile_error:
  "GetObject (client s) (bucket s) key = Inl err \<Longrightarrow> \<not> hasCode err ''NoSuchKey'' \<Longrightarrow>
   serveFile env s req key st =
     emit (http_Error (Error err) 500) (emit (S3_GetObject (bucket s) key) st)"
  by (simp add: serveFile_def getObject_error)

lemma trace_typed [simp]: "trace (typed env obj key st) = trace st"
  by (simp add: typed_def)

lemma serveFile_trace:
  "\<exists>e. trace (serveFile env s req key st) = trace st @ [S3_GetObject (bucket s) key, e]
       \<and> (is_reply e \<or> e = panic_makeslice)"
proof (cases "GetObject (client s) (bucket s) key")
  case (Inl err)
  then show ?thesis
    by (cases "hasCode err ''NoSuchKey''") (simp_all add: serveFile_absent serveFile_error)
next
  case (Inr obj)
  show ?thesis
    unfolding serveFile_found[OF Inr] Let_def
    by (simp split: sum.splits)
qed

lemma ServeHTTP_slash:
  "HasSuffix (URL_Path req) ''/'' \<Longrightarrow>
   ServeHTTP env s req st = serveFile env s req (URL_Path req @ ''index.html'') st"
  by (simp add: ServeHTTP_def)

lemma reply_last:
  assumes "\<forall>e \<in> set (trace st). \<not> is_reply e"
  shows "\<forall>e \<in> set (butlast (trace (serveFile env s req key st))). \<not> is_reply e"
proof -
  obtain e where e: "trace (serveFile env s req key st) = trace st @ [S3_GetObject (bucket s) key, e]"
    using serveFile_trace by blast
  have "butlast (trace st @ [S3_GetObject (bucket s) key, e]) = trace st @ [S3_GetObject (bucket s) key]"
    by (simp add: butlast_append)
  then show ?thesis using assms e by auto
qed

text \<open>The command's \<open>serveFile\<close>, for an object the store returns.\<close>

lemma main_serveFile_found:
  assumes get: "GetObject (client s) (bucket s) key = Inr obj"
  shows "main_serveFile env s req key st =
     (let st1 = emit (S3_GetObject (bucket s) key) st
      in case io_Copy (Body obj) of
           Inl err \<Rightarrow> emit (http_Error (Error err) 500) st1
         | Inr read \<Rightarrow>
             (case (if main_compression_due env st key read req then gzip env read else Inr read) of
                Inl err \<Rightarrow> emit (http_Error ''an error occurred'' 500) (emit (log_Println (Error err)) st1)
              | Inr data \<Rightarrow>
                  (case sha1 env data of
                     Inl err \<Rightarrow> emit (http_Error ''an error occurred'' 500) (emit (log_Println (Error err)) st1)
                   | Inr fileHashSum \<Rightarrow>
                       emit (http_ServeContent key (aws_TimeValue (LastModified obj)) data)
                         (w_Set ''Cache-Control''
                            (if aws_StringValue (CacheControl obj) \<noteq> []
                             then aws_StringValue (ContentType obj) else ''max-age=60'')
                            (w_Set ''Content-Type'' (main_type env st key read)
                               ((if main_compression_due env st key read req
                                 then w_Set ''Vary'' ''accept-encoding'' \<circ> w_Set ''Content-Encoding'' ''gzip''
                                 else id)
                                  (w_Set ''Etag'' (quoted (EncodeToString StdEncoding fileHashSum)) st1)))))))"
proof -
  have t: "\<And>read. (if (if Header_Get (w_Header (emit (S3_GetObject (bucket s) key) st)) ''Content-Type'' = []
                 then TypeByExtension env (filepath_Ext key)
                 else Header_Get (w_Header (emit (S3_GetObject (bucket s) key) st)) ''Content-Type'') = []
            then DetectContentType env read
            else if Header_Get (w_Header (emit (S3_GetObject (bucket s) key) st)) ''Content-Type'' = []
                 then TypeByExtension env (filepath_Ext key)
                 else Header_Get (w_Header (emit (S3_GetObject (bucket s) key) st)) ''Content-Type'')
          = main_type env st key read"
    by (simp add: main_type_def)
  show ?thesis
    unfolding main_serveFile_def getObject_found[OF get] prod.case sum.case option.case
      Let_def t main_compression_due_def[symmetric]
    by (auto simp: quoted_def split: sum.splits)
qed

lemma main_serveFile_etag:
  assumes get: "GetObject (client s) (bucket s) key = Inr obj"
      and srv: "served_content (main_serveFile env s req key st) = Some content"
  shows "\<exists>fileHashSum. sha1 env content = Inr fileHashSum
           \<and> w_Header (main_serveFile env s req key st) ''Etag'' =
               Some [quoted (EncodeToString StdEncoding fileHashSum)]"
  using srv unfolding main_serveFile_found[OF get] Let_def
  by (auto split: sum.splits if_splits)

lemma main_serveFile_cache_control:
  assumes get: "GetObject (client s) (bucket s) key = Inr obj"
      and srv: "served_content (main_serveFile env s req key st) = Some content"
  shows "w_Header (main_serveFile env s req key st) ''Cache-Control'' =
           Some [if aws_StringValue (CacheControl obj) \<noteq> []
                 then aws_StringValue (ContentType obj) else ''max-age=60'']"
  using srv unfolding main_serveFile_found[OF get] Let_def
  by (auto split: sum.splits if_splits)

text \<open>A request without the header, and the quotes of the ETag.\<close>

lemma quoted_inj: "quoted a = quoted b \<Longrightarrow> a = b"
  by (simp add: quoted_def)

lemma leading_width_Nil: "leading_width rs [] = 0"
  by (induction rs) auto

lemma trim_runes_Nil: "trim_runes rs [] = []"
  by (subst trim_runes.simps) (simp add: leading_width_Nil)

lemma TrimSpace_Nil: "TrimSpace [] = []"
  by (simp add: TrimSpace_def TrimLeft_def TrimRight_def trim_runes_Nil)

lemma no_header_no_gzip:
  "req_Header req ''Accept-Encoding'' = None \<Longrightarrow> \<not> acceptEncodingGzip req"
  by (simp add: acceptEncodingGzip_def Header_Get_def TrimSpace_Nil)

section \<open>Facts about the small site\<close>

lemma get_app_js: "GetObject (client example_site) b ''/app.js'' = Inr app_js"
  by (simp add: example_site_def example_objects_def)

lemma get_index: "GetObject (client example_site) b ''/index.html'' = Inr index_html"
  by (simp add: example_site_def example_objects_def)

lemma get_about_index:
  "GetObject (client example_site) b ''/about/index.html'' = Inr index_html"
  by (simp add: example_site_def example_objects_def)

lemma get_blob: "GetObject (client example_site) b ''/blob'' = Inr blob"
  by (simp add: example_site_def example_objects_def)

lemma get_cut: "GetObject (client example_site) b ''/cut'' = Inr cut_off"
  by (simp add: example_site_def example_objects_def)

lemma bucket_example [simp]: "bucket example_site = ''site''"
  by (simp add: example_site_def)

lemma trace_fresh [simp]: "trace fresh = []"
  by (simp add: fresh_def)

lemma w_Header_fresh [simp]: "w_Header fresh k = None"
  by (simp add: fresh_def)

lemma accept_gzip_deflate: "acceptEncodingGzip (request path [''gzip, deflate''])"
  by (simp add: acceptEncodingGzip_def request_def Header_Get_def TrimSpace_def TrimLeft_def
        TrimRight_def trim_runes.simps space_runes_def)

lemma accept_none: "\<not> acceptEncodingGzip (request path [])"
  by (rule no_header_no_gzip) (simp add: request_def)

lemma due_app_js:
  "compression_due example_lib app_js ''/app.js'' (request ''/app.js'' [''gzip, deflate''])"
  by (simp add: compression_due_code accept_gzip_deflate resolved_type_def app_js_def
        compressableContentTypes_def)

lemma not_due_none: "\<not> compression_due env obj key (request path [])"
  by (simp add: compression_due_code accept_none)

lemma cap_app_js: "cap_ok example_lib app_js"
  by (simp add: cap_ok_def app_js_def example_lib_def)

lemma cap_index: "cap_ok example_lib index_html"
  by (simp add: cap_ok_def index_html_def example_lib_def)

lemma cap_blob: "cap_ok example_lib blob"
  by (simp add: cap_ok_def blob_def)

lemma cap_cut: "cap_ok example_lib cut_off"
  by (simp add: cap_ok_def cut_off_def example_lib_def)

lemma body_app_js: "Body app_js = ([0x61, 0x3d, 0x31], None)"
  by (simp add: app_js_def)

lemma body_index: "Body index_html = ([0x68, 0x69], None)"
  by (simp add: index_html_def)

lemma body_blob: "Body blob = ([0x00], None)"
  by (simp add: blob_def)

lemma body_cut: "Body cut_off = ([0x61], Some (other_error ''unexpected EOF''))"
  by (simp add: cut_off_def)

lemma gzip_example: "gzip example_lib b = Inr (0x1f # 0x8b # b)"
  by (simp add: example_lib_def)

lemma sha256_example: "sha256 example_lib b = b"
  by (simp add: example_lib_def)

lemma served_app_js:
  "served_content (serveFile example_lib example_site (request ''/app.js'' [''gzip, deflate''])
     ''/app.js'' st) = Some [0x1f, 0x8b, 0x61, 0x3d, 0x31]"
  unfolding serveFile_found[OF get_app_js] Let_def
  by (simp add: due_app_js cap_app_js body_app_js io_Copy_def Close_def gzip_example)

lemma served_plain:
  assumes "GetObject (client example_site) (bucket example_site) key = Inr obj"
      and "cap_ok example_lib obj" and "Body obj = (bs, None)"
  shows "served_content (serveFile example_lib example_site (request path []) key st) = Some bs"
  unfolding serveFile_found[OF assms(1)] Let_def
  by (simp add: not_due_none assms(2,3) io_Copy_def Close_def)

lemmas served_index = served_plain[OF get_index cap_index body_index]
lemmas served_about_index = served_plain[OF get_about_index cap_index body_index]
lemmas served_blob = served_plain[OF get_blob cap_blob body_blob]

lemma cache_app_js: "aws_StringValue (CacheControl app_js) = ''max-age=3600''"
  by (simp add: app_js_def aws_StringValue_def)

lemma type_app_js: "aws_StringValue (ContentType app_js) = ''application/javascript''"
  by (simp add: app_js_def aws_StringValue_def)

lemma type_blob: "resolved_type example_lib blob ''/blob'' = []"
  by (simp add: resolved_type_def blob_def filepath_Ext_def example_lib_def)

lemma path_request [simp]: "URL_Path (request path accept) = path"
  by (simp add: request_def)

lemma no_accept_request: "req_Header (request path []) ''Accept-Encoding'' = None"
  by (simp add: request_def)

lemma head_example:
  "HeadObject (client example_site) b key =
     (if key = ''/locked'' then Inl (awserr_Error ''Forbidden'' ''Forbidden: Forbidden'')
      else case example_objects key of
             Some obj \<Rightarrow> Inr \<lparr>head_ContentType = ContentType obj,
                               head_ContentLength = ContentLength obj\<rparr>
           | None \<Rightarrow> Inl (awserr_Error ''NotFound'' ''NotFound: Not Found''))"
  by (simp add: example_site_def)

lemma objects_about: "example_objects ''/about'' = None"
  by (simp add: example_objects_def)

lemma objects_about_index: "example_objects ''/about/index.html'' = Some index_html"
  by (simp add: example_objects_def)

lemma objects_missing: "example_objects ''/missing.png'' = None"
  by (simp add: example_objects_def)

lemma objects_missing_index: "example_objects ''/missing.png/index.html'' = None"
  by (simp add: example_objects_def)

lemma get_nothing:
  "GetObject (client example_site) b ''/nothing/index.html'' =
     Inl (awserr_Error ''NoSuchKey'' ''NoSuchKey: no such key'')"
  by (simp add: example_site_def example_objects_def)

lemma parameter_gzip:
  "gzip_only_with_parameter (request path [''deflate, gzip;q=1.0''])"
  by (simp add: gzip_only_with_parameter_def request_def Header_Get_def sublist_Cons_right)

lemma served_app_js_parameter:
  "served_content (serveFile example_lib example_site (request ''/app.js'' [''deflate, gzip;q=1.0''])
     ''/app.js'' st) = Some [0x61, 0x3d, 0x31]"
proof -
  have "\<not> acceptEncodingGzip (request ''/app.js'' [''deflate, gzip;q=1.0''])"
    using parameter_gzip by (rule gzip_only_with_parameter_refused)
  then have nd: "\<not> compression_due example_lib app_js ''/app.js''
                     (request ''/app.js'' [''deflate, gzip;q=1.0''])"
    by (simp add: compression_due_code)
  show ?thesis
    unfolding serveFile_found[OF get_app_js] Let_def
    by (simp add: nd cap_app_js body_app_js io_Copy_def Close_def)
qed

lemma objects_ab: "example_objects ''/a//b'' = None"
  by (simp add: example_objects_def)

lemma objects_ab_index: "example_objects ''/a//b/index.html'' = Some index_html"
  by (simp add: example_objects_def)

lemma escape_example: "escapeLocation example_lib u = u"
  by (simp add: example_lib_def)

lemma relative_ab: "url_relative example_lib ''/a//b/''"
  by (simp add: example_lib_def)

lemma Clean_ab: "path_Clean ''/a//b/'' = ''/a/b''"
  by (simp add: path_Clean_def)

lemma Location_ab: "Redirect_Location example_lib ''/a//b'' ''/a//b/'' = ''/a/b/''"
  by (simp add: Redirect_Location_def relative_ab escape_example Clean_ab HasSuffix_def
        suffix_to_prefix)

lemma plain_about: "plain_path ''/about''"
  by (simp add: plain_path_def)

section \<open>The claims\<close>

text \<open>
  Claim C1: the ETag of a served object is the quoted, unpadded base64 of a digest of
  exactly the bytes that are transmitted, so of the compressed bytes when gzip is
  applied. The library's \<open>serveFile\<close> does not do that when it compresses: the body
  handed to \<open>http.ServeContent\<close> is the gzip stream, while the ETag is the digest of the
  object's own bytes, since the hash is written beside the gzip writer and not behind
  it. Whenever the two digests differ, the ETag is not the digest of what is sent.
  (Without compression the two coincide; the command's \<open>serveFile\<close> hashes the bytes
  it sends, see \<open>main_serveFile_etag\<close>, but with SHA-1 and padded base64.)
\<close>

theorem etag_digest_of_object_bytes:
  assumes get: "GetObject (client s) (bucket s) key = Inr obj"
      and srv: "served_content (serveFile env s req key st) = Some content"
      and gz: "compression_due env obj key req"
  shows "gzip env (fst (Body obj)) = Inr content
         \<and> w_Header (serveFile env s req key st) ''Etag'' =
             Some [quoted (EncodeToString base64Encoding (sha256 env (fst (Body obj))))]
         \<and> (sha256 env content \<noteq> sha256 env (fst (Body obj)) \<longrightarrow>
              w_Header (serveFile env s req key st) ''Etag'' \<noteq>
                Some [quoted (EncodeToString base64Encoding (sha256 env content))])"
proof -
  have sent: "gzip env (fst (Body obj)) = Inr content"
    using serveFile_servedD(3)[OF get srv] gz by (simp add: Close_def)
  have etag: "w_Header (serveFile env s req key st) ''Etag'' =
      Some [quoted (EncodeToString base64Encoding (sha256 env (fst (Body obj))))]"
    using gz by (simp add: serveFile_served_state[OF get srv])
  have "sha256 env content = sha256 env (fst (Body obj))"
    if "w_Header (serveFile env s req key st) ''Etag'' =
          Some [quoted (EncodeToString base64Encoding (sha256 env content))]"
  proof -
    have "quoted (EncodeToString base64Encoding (sha256 env content)) =
          quoted (EncodeToString base64Encoding (sha256 env (fst (Body obj))))"
      using that etag by simp
    then have "EncodeToString None (sha256 env content) =
               EncodeToString None (sha256 env (fst (Body obj)))"
      unfolding base64Encoding_def by (rule quoted_inj)
    then show ?thesis by (rule EncodeToString_inj)
  qed
  then show ?thesis using sent etag by blast
qed

theorem etag_digest_of_object_bytes_witness:
  "served_content (serveFile example_lib example_site (request ''/app.js'' [''gzip, deflate''])
      ''/app.js'' fresh) = Some [0x1f, 0x8b, 0x61, 0x3d, 0x31]
   \<and> gzip example_lib (fst (Body app_js)) = Inr [0x1f, 0x8b, 0x61, 0x3d, 0x31]
   \<and> w_Header (serveFile example_lib example_site (request ''/app.js'' [''gzip, deflate''])
        ''/app.js'' fresh) ''Etag''
       = Some [quoted (EncodeToString base64Encoding (sha256 example_lib (fst (Body app_js))))]
   \<and> w_Header (serveFile example_lib example_site (request ''/app.js'' [''gzip, deflate''])
        ''/app.js'' fresh) ''Etag''
       \<noteq> Some [quoted (EncodeToString base64Encoding
                   (sha256 example_lib [0x1f, 0x8b, 0x61, 0x3d, 0x31]))]"
proof -
  have differ: "sha256 example_lib [0x1f, 0x8b, 0x61, 0x3d, 0x31] \<noteq>
                sha256 example_lib (fst (Body app_js))"
    by (simp add: sha256_example body_app_js)
  show ?thesis
    using etag_digest_of_object_bytes[OF get_app_js served_app_js due_app_js, of fresh]
      served_app_js[of fresh] differ
    by blast
qed

text \<open>
  Claim C2: the \<open>Cache-Control\<close> header of a served object is the store's cache-control
  directive when that is not empty, and \<open>max-age=60\<close> otherwise. The second half holds.
  The first does not: when the directive is not empty, \<open>serveFile\<close> sets the header to
  the object's \<^emph>\<open>content type\<close> as the store reports it (empty when it reports none),
  and the directive itself is never written.
\<close>

theorem cache_control_is_content_type:
  assumes get: "GetObject (client s) (bucket s) key = Inr obj"
      and srv: "served_content (serveFile env s req key st) = Some content"
  shows "w_Header (serveFile env s req key st) ''Cache-Control'' =
           Some [if aws_StringValue (CacheControl obj) \<noteq> []
                 then aws_StringValue (ContentType obj) else ''max-age=60'']"
  by (simp add: serveFile_served_state[OF get srv])

theorem cache_control_is_content_type_witness:
  "aws_StringValue (CacheControl app_js) = ''max-age=3600''
   \<and> w_Header (serveFile example_lib example_site (request ''/app.js'' [''gzip, deflate''])
        ''/app.js'' fresh) ''Cache-Control'' = Some [''application/javascript'']"
  using cache_control_is_content_type[OF get_app_js served_app_js, of fresh]
  by (simp add: cache_app_js type_app_js)



text \<open>
  Claim C4: for a path that does not end in \<open>/\<close>: if the object of the path is there
  it is served; else if the object of \<open>path/index.html\<close> is there the response is a 302
  with \<open>Location\<close> equal to \<open>path/\<close>; else it is a 404. As stated this fails in the
  \<open>Location\<close>: the handler hands \<open>path/\<close> to \<open>http.Redirect\<close>, which cleans a relative
  target before it writes the header, so the path \<open>/a//b\<close> is redirected to \<open>/a/b/\<close>
  (\<open>redirect_location_counterexample\<close>). What holds, when neither existence check
  fails: the three cases are the branches of one conditional, so exactly one applies;
  in the second the handler calls \<open>http.Redirect\<close> with the target \<open>path/\<close> and the code
  302, and the \<open>Location\<close> of the response is what \<open>http.Redirect\<close> makes of that
  target; for a plain path (rooted, no \<open>?\<close>, no element empty, \<open>.\<close> or \<open>..\<close>) that is
  \<open>path/\<close> itself, as the library escapes it.
\<close>

theorem resolution_without_slash:
  assumes noslash: "\<not> HasSuffix (URL_Path req) ''/''"
      and ok1: "\<not> check_fails s (URL_Path req)"
      and ok2: "present s (URL_Path req) \<or> \<not> check_fails s (URL_Path req @ ''/index.html'')"
  shows "ServeHTTP env s req st =
          (let path = URL_Path req;
               st1 = emit (S3_HeadObject (bucket s) path) st;
               st2 = emit (S3_HeadObject (bucket s) (path @ ''/index.html'')) st1
           in if present s path then serveFile env s req path st1
              else if present s (path @ ''/index.html'')
                   then emit (http_Redirect (path @ ''/'') 302) st2
                   else emit http_NotFound st2)
         \<and> (\<not> present s (URL_Path req) \<and> present s (URL_Path req @ ''/index.html'') \<longrightarrow>
              Location env req (ServeHTTP env s req st) =
                Some (Redirect_Location env (URL_Path req) (URL_Path req @ ''/'')))
         \<and> (plain_path (URL_Path req) \<longrightarrow>
              Redirect_Location env (URL_Path req) (URL_Path req @ ''/'') =
                escapeLocation env (URL_Path req @ ''/''))"
proof -
  have run: "ServeHTTP env s req st =
          (let path = URL_Path req;
               st1 = emit (S3_HeadObject (bucket s) path) st;
               st2 = emit (S3_HeadObject (bucket s) (path @ ''/index.html'')) st1
           in if present s path then serveFile env s req path st1
              else if present s (path @ ''/index.html'')
                   then emit (http_Redirect (path @ ''/'') 302) st2
                   else emit http_NotFound st2)"
  proof (cases "HeadObject (client s) (bucket s) (URL_Path req)")
    case (Inr out)
    then show ?thesis
      using noslash by (simp add: ServeHTTP_def headObject_found present_def Let_def)
  next
    case (Inl err)
    then have nf: "hasCode err ''NotFound''" and np: "\<not> present s (URL_Path req)"
      using ok1 by (simp_all add: check_fails_def present_def)
    show ?thesis
    proof (cases "HeadObject (client s) (bucket s) (URL_Path req @ ''/index.html'')")
      case (Inr out)
      then show ?thesis
        using noslash np
        by (simp add: ServeHTTP_def headObject_absent[OF Inl nf] headObject_found present_def Let_def)
    next
      case err2: (Inl err')
      then have nf2: "hasCode err' ''NotFound''"
        using ok2 np by (simp add: check_fails_def)
      show ?thesis
        using noslash np err2
        by (simp add: ServeHTTP_def headObject_absent[OF Inl nf] headObject_absent[OF err2 nf2]
              present_def Let_def)
    qed
  qed
  have loc: "Location env req (ServeHTTP env s req st) =
      Some (Redirect_Location env (URL_Path req) (URL_Path req @ ''/''))"
    if "\<not> present s (URL_Path req)" "present s (URL_Path req @ ''/index.html'')"
    using that by (simp add: run Let_def)
  have plain: "Redirect_Location env (URL_Path req) (URL_Path req @ ''/'') =
      escapeLocation env (URL_Path req @ ''/'')"
    if "plain_path (URL_Path req)"
    using that noslash by (rule Redirect_Location_plain)
  show ?thesis using run loc plain by blast
qed

theorem resolution_without_slash_witness:
  "\<not> HasSuffix (URL_Path (request ''/about'' [])) ''/''
   \<and> \<not> present example_site ''/about'' \<and> present example_site ''/about/index.html''
   \<and> trace (ServeHTTP example_lib example_site (request ''/about'' []) fresh) =
       [S3_HeadObject ''site'' ''/about'', S3_HeadObject ''site'' ''/about/index.html'',
        http_Redirect ''/about/'' 302]
   \<and> plain_path ''/about''
   \<and> Location example_lib (request ''/about'' [])
        (ServeHTTP example_lib example_site (request ''/about'' []) fresh) = Some ''/about/''
   \<and> \<not> present example_site ''/missing.png''
   \<and> \<not> present example_site ''/missing.png/index.html''
   \<and> trace (ServeHTTP example_lib example_site (request ''/missing.png'' []) fresh) =
       [S3_HeadObject ''site'' ''/missing.png'', S3_HeadObject ''site'' ''/missing.png/index.html'',
        http_NotFound]"
proof -
  have a: "\<not> HasSuffix (URL_Path (request ''/about'' [])) ''/''"
    and m: "\<not> HasSuffix (URL_Path (request ''/missing.png'' [])) ''/''"
    by (simp_all add: HasSuffix_def suffix_to_prefix)
  have pa: "\<not> present example_site ''/about''" "present example_site ''/about/index.html''"
    and pm: "\<not> present example_site ''/missing.png''"
            "\<not> present example_site ''/missing.png/index.html''"
    by (simp_all add: present_def head_example objects_about objects_about_index
          objects_missing objects_missing_index)
  have ca: "\<not> check_fails example_site ''/about''"
           "\<not> check_fails example_site ''/about/index.html''"
    and cm: "\<not> check_fails example_site ''/missing.png''"
            "\<not> check_fails example_site ''/missing.png/index.html''"
    by (simp_all add: check_fails_def head_example objects_about objects_about_index
          objects_missing objects_missing_index)
  note ta = resolution_without_slash[of "request ''/about'' []" example_site example_lib fresh]
  note tm = resolution_without_slash[of "request ''/missing.png'' []" example_site example_lib fresh]
  have 1: "trace (ServeHTTP example_lib example_site (request ''/about'' []) fresh) =
       [S3_HeadObject ''site'' ''/about'', S3_HeadObject ''site'' ''/about/index.html'',
        http_Redirect ''/about/'' 302]"
    using ta a pa ca by (simp add: Let_def)
  have 2: "Location example_lib (request ''/about'' [])
        (ServeHTTP example_lib example_site (request ''/about'' []) fresh) = Some ''/about/''"
    using ta a pa ca plain_about by (simp add: escape_example)
  have 3: "trace (ServeHTTP example_lib example_site (request ''/missing.png'' []) fresh) =
       [S3_HeadObject ''site'' ''/missing.png'', S3_HeadObject ''site'' ''/missing.png/index.html'',
        http_NotFound]"
    using tm m pm cm by (simp add: Let_def)
  show ?thesis using a pa pm plain_about 1 2 3 by blast
qed

theorem redirect_location_counterexample:
  "\<not> HasSuffix (URL_Path (request ''/a//b'' [])) ''/''
   \<and> \<not> present example_site ''/a//b'' \<and> present example_site ''/a//b/index.html''
   \<and> trace (ServeHTTP example_lib example_site (request ''/a//b'' []) fresh) =
       [S3_HeadObject ''site'' ''/a//b'', S3_HeadObject ''site'' ''/a//b/index.html'',
        http_Redirect ''/a//b/'' 302]
   \<and> Location example_lib (request ''/a//b'' [])
        (ServeHTTP example_lib example_site (request ''/a//b'' []) fresh) = Some ''/a/b/''
   \<and> Location example_lib (request ''/a//b'' [])
        (ServeHTTP example_lib example_site (request ''/a//b'' []) fresh)
       \<noteq> Some (URL_Path (request ''/a//b'' []) @ ''/'')"
proof -
  have n: "\<not> HasSuffix (URL_Path (request ''/a//b'' [])) ''/''"
    by (simp add: HasSuffix_def suffix_to_prefix)
  have h1: "HeadObject (client example_site) (bucket example_site) ''/a//b'' =
              Inl (awserr_Error ''NotFound'' ''NotFound: Not Found'')"
    by (simp add: head_example objects_ab)
  have h2: "HeadObject (client example_site) (bucket example_site) ''/a//b/index.html'' =
              Inr \<lparr>head_ContentType = ContentType index_html,
                   head_ContentLength = ContentLength index_html\<rparr>"
    by (simp add: head_example objects_ab_index)
  have p: "\<not> present example_site ''/a//b''" "present example_site ''/a//b/index.html''"
    by (simp_all add: present_def head_example objects_ab objects_ab_index)
  have run: "ServeHTTP example_lib example_site (request ''/a//b'' []) fresh =
      emit (http_Redirect ''/a//b/'' 302)
        (emit (S3_HeadObject ''site'' ''/a//b/index.html'')
           (emit (S3_HeadObject ''site'' ''/a//b'') fresh))"
    using n headObject_absent[OF h1, of fresh] headObject_found[OF h2]
    by (simp add: ServeHTTP_def Let_def)
  have t: "trace (ServeHTTP example_lib example_site (request ''/a//b'' []) fresh) =
       [S3_HeadObject ''site'' ''/a//b'', S3_HeadObject ''site'' ''/a//b/index.html'',
        http_Redirect ''/a//b/'' 302]"
    by (simp add: run)
  have l: "Location example_lib (request ''/a//b'' [])
        (ServeHTTP example_lib example_site (request ''/a//b'' []) fresh) = Some ''/a/b/''"
    by (simp add: run Location_ab)
  have d: "Location example_lib (request ''/a//b'' [])
        (ServeHTTP example_lib example_site (request ''/a//b'' []) fresh)
       \<noteq> Some (URL_Path (request ''/a//b'' []) @ ''/'')"
    by (simp add: l)
  show ?thesis using n p t l d by blast
qed

text \<open>
  Claim C5: for a path that ends in \<open>/\<close> the handler serves the key
  \<open>path @ index.html\<close> at once: it makes no existence check, and when the store has no
  such object the calls it makes are the fetch and then \<open>http.NotFound\<close>.
\<close>

theorem slash_serves_index:
  assumes slash: "HasSuffix (URL_Path req) ''/''"
  shows "ServeHTTP env s req st = serveFile env s req (URL_Path req @ ''index.html'') st
         \<and> filter is_check (trace (ServeHTTP env s req st)) = filter is_check (trace st)
         \<and> (\<forall>err. GetObject (client s) (bucket s) (URL_Path req @ ''index.html'') = Inl err
                   \<and> hasCode err ''NoSuchKey'' \<longrightarrow>
                 trace (ServeHTTP env s req st) =
                   trace st @ [S3_GetObject (bucket s) (URL_Path req @ ''index.html''),
                               http_NotFound])"
proof -
  obtain e where e: "trace (serveFile env s req (URL_Path req @ ''index.html'') st) =
       trace st @ [S3_GetObject (bucket s) (URL_Path req @ ''index.html''), e]"
     and r: "is_reply e \<or> e = panic_makeslice"
    using serveFile_trace by blast
  have "\<not> is_check e" using r by (cases e) auto
  then show ?thesis
    by (simp add: ServeHTTP_slash[OF slash] e serveFile_absent)
qed

theorem slash_serves_index_witness:
  "HasSuffix (URL_Path (request ''/nothing/'' [])) ''/''
   \<and> ServeHTTP example_lib example_site (request ''/nothing/'' []) fresh =
       serveFile example_lib example_site (request ''/nothing/'' []) ''/nothing/index.html'' fresh
   \<and> filter is_check (trace (ServeHTTP example_lib example_site (request ''/nothing/'' []) fresh))
       = []
   \<and> trace (ServeHTTP example_lib example_site (request ''/nothing/'' []) fresh) =
       [S3_GetObject ''site'' ''/nothing/index.html'', http_NotFound]"
proof -
  have s: "HasSuffix (URL_Path (request ''/nothing/'' [])) ''/''"
    by (simp add: HasSuffix_def suffix_to_prefix)
  note t = slash_serves_index[OF s, of example_lib example_site fresh]
  have 1: "ServeHTTP example_lib example_site (request ''/nothing/'' []) fresh =
       serveFile example_lib example_site (request ''/nothing/'' []) ''/nothing/index.html'' fresh"
    using t[THEN conjunct1] by simp
  have 2: "filter is_check (trace (ServeHTTP example_lib example_site (request ''/nothing/'' []) fresh))
       = []"
    using t[THEN conjunct2, THEN conjunct1] by simp
  have 3: "trace (ServeHTTP example_lib example_site (request ''/nothing/'' []) fresh) =
       [S3_GetObject ''site'' ''/nothing/index.html'', http_NotFound]"
    using t[THEN conjunct2, THEN conjunct2] get_nothing by simp
  show ?thesis using s 1 2 3 by blast
qed

text \<open>
  Claim C6: for a path that does not end in \<open>/\<close>, an existence check that fails with
  an error other than the store's \<open>NotFound\<close> ends the run with \<open>http.Error\<close> and the
  code 500, after the first check or after the second. The \<open>NotFound\<close> error of the
  first check gives no 500: the second check is made, and what the handler replies
  follows from that one (a redirect, a 404, or a 500 for an error of its own).
\<close>

theorem check_error_is_500:
  assumes noslash: "\<not> HasSuffix (URL_Path req) ''/''"
  shows "(\<forall>err. HeadObject (client s) (bucket s) (URL_Path req) = Inl err
                \<and> \<not> hasCode err ''NotFound'' \<longrightarrow>
            trace (ServeHTTP env s req st) =
              trace st @ [S3_HeadObject (bucket s) (URL_Path req), http_Error (Error err) 500])
       \<and> (\<forall>nf. HeadObject (client s) (bucket s) (URL_Path req) = Inl nf
                \<and> hasCode nf ''NotFound'' \<longrightarrow>
            trace (ServeHTTP env s req st) =
              trace st @ [S3_HeadObject (bucket s) (URL_Path req),
                          S3_HeadObject (bucket s) (URL_Path req @ ''/index.html''),
                          (case HeadObject (client s) (bucket s) (URL_Path req @ ''/index.html'') of
                             Inr out \<Rightarrow> http_Redirect (URL_Path req @ ''/'') 302
                           | Inl err \<Rightarrow> if hasCode err ''NotFound'' then http_NotFound
                                        else http_Error (Error err) 500)])"
  using noslash
  by (auto simp: ServeHTTP_def headObject_def Let_def split: sum.splits)

theorem check_error_is_500_witness:
  "\<not> HasSuffix (URL_Path (request ''/locked'' [])) ''/''
   \<and> HeadObject (client example_site) (bucket example_site) ''/locked'' =
       Inl (awserr_Error ''Forbidden'' ''Forbidden: Forbidden'')
   \<and> trace (ServeHTTP example_lib example_site (request ''/locked'' []) fresh) =
       [S3_HeadObject ''site'' ''/locked'', http_Error ''Forbidden: Forbidden'' 500]
   \<and> HeadObject (client example_site) (bucket example_site) ''/missing.png'' =
       Inl (awserr_Error ''NotFound'' ''NotFound: Not Found'')
   \<and> trace (ServeHTTP example_lib example_site (request ''/missing.png'' []) fresh) =
       [S3_HeadObject ''site'' ''/missing.png'', S3_HeadObject ''site'' ''/missing.png/index.html'',
        http_NotFound]"
proof -
  have l: "\<not> HasSuffix (URL_Path (request ''/locked'' [])) ''/''"
    and m: "\<not> HasSuffix (URL_Path (request ''/missing.png'' [])) ''/''"
    by (simp_all add: HasSuffix_def suffix_to_prefix)
  have hl: "HeadObject (client example_site) (bucket example_site) ''/locked'' =
              Inl (awserr_Error ''Forbidden'' ''Forbidden: Forbidden'')"
    and hm: "HeadObject (client example_site) (bucket example_site) ''/missing.png'' =
              Inl (awserr_Error ''NotFound'' ''NotFound: Not Found'')"
    and hmi: "HeadObject (client example_site) (bucket example_site) ''/missing.png/index.html'' =
              Inl (awserr_Error ''NotFound'' ''NotFound: Not Found'')"
    by (simp_all add: head_example objects_missing objects_missing_index)
  show ?thesis
    using check_error_is_500[OF l, of example_site example_lib fresh]
      check_error_is_500[OF m, of example_site example_lib fresh] l hl hm hmi
    by simp
qed

text \<open>
  Claim C7: when the store reports no content type and the key's extension gives
  none, the response has no \<open>Content-Type\<close> header at all. The first \<open>Set\<close> of the header
  is guarded and is skipped for an empty type, but the second one is not: the header
  map of a served object always has a \<open>Content-Type\<close> entry, here with the empty string
  as its value.
\<close>

theorem unknown_type_sets_empty_header:
  assumes get: "GetObject (client s) (bucket s) key = Inr obj"
      and srv: "served_content (serveFile env s req key st) = Some content"
      and unknown: "resolved_type env obj key = []"
  shows "w_Header (serveFile env s req key st) ''Content-Type'' = Some [[]]"
  by (simp add: serveFile_served_state[OF get srv] unknown)

theorem unknown_type_sets_empty_header_witness:
  "resolved_type example_lib blob ''/blob'' = []
   \<and> served_content (serveFile example_lib example_site (request ''/blob'' []) ''/blob'' fresh)
       = Some [0x00]
   \<and> w_Header (serveFile example_lib example_site (request ''/blob'' []) ''/blob'' fresh)
        ''Content-Type'' = Some [[]]
   \<and> w_Header (serveFile example_lib example_site (request ''/blob'' []) ''/blob'' fresh)
        ''Content-Type'' \<noteq> None"
  using unknown_type_sets_empty_header[OF get_blob served_blob type_blob, of "''/blob''" fresh]
    served_blob[of "''/blob''" fresh]
  by (simp add: type_blob)

text \<open>
  Claim C8: when reading the body fails (the buffer for it could be made, and the
  reader ends with an error), the handler's calls are the fetch and then \<open>http.Error\<close>
  with the code 500: no other reply comes before it, and the header map has nothing
  new but, possibly, the content type. In every run of \<open>serveFile\<close> that starts before
  any reply, a reply is the last call only: the status, the headers and the body go
  out once the body, its compression and its digest are complete.
\<close>

theorem read_error_is_500:
  assumes get: "GetObject (client s) (bucket s) key = Inr obj"
      and cap: "cap_ok env obj"
      and body: "snd (Body obj) = Some err"
  shows "trace (serveFile env s req key st) =
           trace st @ [S3_GetObject (bucket s) key, http_Error (Error err) 500]
         \<and> (\<forall>k. k \<noteq> ''Content-Type'' \<longrightarrow>
               w_Header (serveFile env s req key st) k = w_Header st k)
         \<and> ((\<forall>e \<in> set (trace st). \<not> is_reply e) \<longrightarrow>
               filter is_reply (trace (serveFile env s req key st)) = [http_Error (Error err) 500])
         \<and> ((\<forall>e \<in> set (trace st). \<not> is_reply e) \<longrightarrow>
               (\<forall>e \<in> set (butlast (trace (serveFile env' s' req' key' st))). \<not> is_reply e))"
proof -
  have run: "serveFile env s req key st =
      emit (http_Error (Error err) 500) (typed env obj key (emit (S3_GetObject (bucket s) key) st))"
    unfolding serveFile_found[OF get] Let_def using cap body by (simp add: io_Copy_def)
  show ?thesis
    using reply_last[of st env' s' req' key']
    by (simp add: run w_Header_typed filter_empty_conv)
qed

theorem read_error_is_500_witness:
  "snd (Body cut_off) = Some (other_error ''unexpected EOF'')
   \<and> trace (serveFile example_lib example_site (request ''/cut'' []) ''/cut'' fresh) =
       [S3_GetObject ''site'' ''/cut'', http_Error ''unexpected EOF'' 500]
   \<and> filter is_reply (trace (serveFile example_lib example_site (request ''/cut'' []) ''/cut'' fresh))
       = [http_Error ''unexpected EOF'' 500]
   \<and> w_Header (serveFile example_lib example_site (request ''/cut'' []) ''/cut'' fresh) ''Etag''
       = None"
proof -
  have b: "snd (Body cut_off) = Some (other_error ''unexpected EOF'')"
    by (simp add: body_cut)
  show ?thesis
    using read_error_is_500[OF get_cut cap_cut b, of "request ''/cut'' []" fresh] b
    by simp
qed

text \<open>
  Claim C9: two served responses for objects with the same bytes, to requests without
  an \<open>Accept-Encoding\<close> header, have the same ETag, whatever the keys, the stores, the
  other metadata and the earlier state. The bytes sent are the same too, and the ETag
  is the quoted unpadded base64 of their digest.
\<close>

theorem etag_deterministic:
  assumes get1: "GetObject (client s1) (bucket s1) key1 = Inr obj1"
      and get2: "GetObject (client s2) (bucket s2) key2 = Inr obj2"
      and same: "fst (Body obj1) = fst (Body obj2)"
      and no1: "req_Header req1 ''Accept-Encoding'' = None"
      and no2: "req_Header req2 ''Accept-Encoding'' = None"
      and srv1: "served_content (serveFile env s1 req1 key1 st1) = Some content1"
      and srv2: "served_content (serveFile env s2 req2 key2 st2) = Some content2"
  shows "w_Header (serveFile env s1 req1 key1 st1) ''Etag'' =
           w_Header (serveFile env s2 req2 key2 st2) ''Etag''
         \<and> w_Header (serveFile env s1 req1 key1 st1) ''Etag'' =
             Some [quoted (EncodeToString base64Encoding (sha256 env content1))]
         \<and> content1 = content2"
proof -
  have n1: "\<not> compression_due env obj1 key1 req1"
    using no_header_no_gzip[OF no1] by (simp add: compression_due_code)
  have n2: "\<not> compression_due env obj2 key2 req2"
    using no_header_no_gzip[OF no2] by (simp add: compression_due_code)
  have c1: "content1 = fst (Body obj1)"
    using serveFile_servedD(3)[OF get1 srv1] n1 by (simp add: Close_def)
  have c2: "content2 = fst (Body obj2)"
    using serveFile_servedD(3)[OF get2 srv2] n2 by (simp add: Close_def)
  show ?thesis
    by (simp add: serveFile_served_state[OF get1 srv1] serveFile_served_state[OF get2 srv2]
          same c1 c2)
qed

theorem etag_deterministic_witness:
  "fst (Body index_html) = fst (Body index_html)
   \<and> req_Header (request ''/'' []) ''Accept-Encoding'' = None
   \<and> served_content (serveFile example_lib example_site (request ''/'' []) ''/index.html'' fresh)
       = Some [0x68, 0x69]
   \<and> served_content (serveFile example_lib example_site (request ''/about/'' [])
        ''/about/index.html'' fresh) = Some [0x68, 0x69]
   \<and> w_Header (serveFile example_lib example_site (request ''/'' []) ''/index.html'' fresh) ''Etag''
       = w_Header (serveFile example_lib example_site (request ''/about/'' [])
           ''/about/index.html'' fresh) ''Etag''"
  using etag_deterministic[OF get_index get_about_index refl no_accept_request no_accept_request
      served_index served_about_index, of "''/''" fresh "''/about/''" fresh]
    served_index[of "''/''" fresh] served_about_index[of "''/about/''" fresh]
  by (simp add: no_accept_request)

text \<open>
  Claim C10: when every piece of the \<open>Accept-Encoding\<close> value that mentions \<open>gzip\<close> has a
  parameter attached (\<open>gzip;q=1.0\<close>), \<open>acceptEncodingGzip\<close> is false, and a served body
  is the object's own bytes with no \<open>Content-Encoding\<close> set by the handler, also for a
  compressible type.
\<close>

theorem gzip_with_parameter_not_accepted:
  assumes par: "gzip_only_with_parameter req"
  shows "\<not> acceptEncodingGzip req
         \<and> (\<forall>obj content. GetObject (client s) (bucket s) key = Inr obj
               \<and> served_content (serveFile env s req key st) = Some content \<longrightarrow>
             content = fst (Body obj)
             \<and> w_Header (serveFile env s req key st) ''Content-Encoding'' =
                 w_Header st ''Content-Encoding'')"
proof (intro conjI allI impI)
  show n: "\<not> acceptEncodingGzip req"
    using par by (rule gzip_only_with_parameter_refused)
  fix obj content
  assume a: "GetObject (client s) (bucket s) key = Inr obj
             \<and> served_content (serveFile env s req key st) = Some content"
  then have get: "GetObject (client s) (bucket s) key = Inr obj"
    and srv: "served_content (serveFile env s req key st) = Some content"
    by simp_all
  have nd: "\<not> compression_due env obj key req"
    using n by (simp add: compression_due_code)
  show "content = fst (Body obj)"
    using serveFile_servedD(3)[OF get srv] nd by (simp add: Close_def)
  show "w_Header (serveFile env s req key st) ''Content-Encoding'' = w_Header st ''Content-Encoding''"
    using nd by (simp add: serveFile_served_state[OF get srv] w_Header_typed)
qed

theorem gzip_with_parameter_not_accepted_witness:
  "gzip_only_with_parameter (request ''/app.js'' [''deflate, gzip;q=1.0''])
   \<and> compressableContentTypes (stripped (resolved_type example_lib app_js ''/app.js''))
   \<and> \<not> acceptEncodingGzip (request ''/app.js'' [''deflate, gzip;q=1.0''])
   \<and> served_content (serveFile example_lib example_site
        (request ''/app.js'' [''deflate, gzip;q=1.0'']) ''/app.js'' fresh) = Some (fst (Body app_js))
   \<and> w_Header (serveFile example_lib example_site
        (request ''/app.js'' [''deflate, gzip;q=1.0'']) ''/app.js'' fresh) ''Content-Encoding'' = None"
proof -
  have c: "compressableContentTypes (stripped (resolved_type example_lib app_js ''/app.js''))"
    by (simp add: resolved_type_def app_js_def stripped_def compressableContentTypes_def)
  note t = gzip_with_parameter_not_accepted[OF parameter_gzip,
      of "''/app.js''" example_site "''/app.js''" example_lib fresh]
  have 1: "\<not> acceptEncodingGzip (request ''/app.js'' [''deflate, gzip;q=1.0''])"
    using t by (rule conjunct1)
  have 2: "fst (Body app_js) = fst (Body app_js)
           \<and> w_Header (serveFile example_lib example_site
               (request ''/app.js'' [''deflate, gzip;q=1.0'']) ''/app.js'' fresh) ''Content-Encoding''
             = w_Header fresh ''Content-Encoding''"
    using t[THEN conjunct2, rule_format, of app_js "fst (Body app_js)"]
      get_app_js served_app_js_parameter[of fresh]
    by (simp add: body_app_js)
  show ?thesis
    using parameter_gzip c 1 2 served_app_js_parameter[of fresh]
    by (simp add: body_app_js)
qed

end
